theory Spec2Isabelle
  imports Complex_Main "HOL-Library.AList"
begin

section \<open>Python values, exceptions and generators\<close>

text \<open>
  The dispatcher of \<^verbatim>\<open>sgcache/web/core.py\<close> is dynamically typed Python 2: one
  universe of values holds what \<^verbatim>\<open>json.loads\<close> produces (dict, list, unicode, int,
  float, bool, None), the tuples the view functions return and the
  \<^verbatim>\<open>e.args\<close> of an exception, and flask \<^verbatim>\<open>Response\<close> objects.
  A decoded dict has string keys only; \<^verbatim>\<open>payload['params'][-1] = params\<close> on a dict
  adds the integer key \<^verbatim>\<open>-1\<close>, hence the two kinds of key. Of a float only its type
  and whether it is zero are ever inspected.
\<close>

record response =
  body :: string
  streamed :: bool
  status :: int
  headers :: "(string \<times> string) list"
  mimetype :: "string option"
  direct_passthrough :: bool

datatype pykey = KStr string | KInt int

datatype pyval =
    PNone
  | PBool bool
  | PInt int
  | PFloat real
  | PStr string
  | PList "pyval list"
  | PTuple "pyval list"
  | PDict "(pykey \<times> pyval) list"
  | PResponse response

text \<open>
  The exceptions that can cross the dispatcher. \<^verbatim>\<open>ReturnResponse(ValueError)\<close> and its
  subclass \<^verbatim>\<open>ReturnPassthroughError\<close> are declared in the module and carry their
  constructor arguments (\<^verbatim>\<open>e.args\<close>).

  Modelled from the spec: the classes \<^verbatim>\<open>Fault\<close> and \<^verbatim>\<open>Passthrough\<close> are imported from
  \<^verbatim>\<open>sgcache/exceptions.py\<close>, which is not part of the sources at hand. A Fault is a
  domain-level error with an integer \<^verbatim>\<open>code\<close> and a string message
  (\<^verbatim>\<open>e.args[0]\<close>); a Passthrough is the signal "forward this request verbatim" with
  its reason. Both carry the name of their class, which the log lines print, and
  neither is a subclass of the other or of \<^verbatim>\<open>ReturnResponse\<close>.
\<close>

datatype exc =
    ReturnResponse "pyval list"
  | ReturnPassthroughError "pyval list"
  | Fault string int string
  | Passthrough string string
  | KeyError
  | IndexError
  | TypeError
  | ValueError
  | AttributeError
  | NameError
  | UnboundLocalError
  | StopIteration
  | OtherError string

text \<open>
  A handler is called with the method params and returns a value, raises, or returns a
  generator. A generator is described by what it does when it is advanced: it yields a
  value and waits to be resumed (by \<^verbatim>\<open>send\<close>, or by \<^verbatim>\<open>throw\<close>), it finishes
  (\<^verbatim>\<open>StopIteration\<close> for the caller: a Python 2 generator cannot return a value), or
  it raises. A generator may yield for ever, so the type is coinductive.
\<close>

datatype resume = Send pyval | Throw exc

codatatype gen = Yield pyval "resume \<Rightarrow> gen" | Stop | Raise exc

datatype outcome = Returns pyval | Raises exc | Generator gen

type_synonym handler = "pyval \<Rightarrow> outcome"

section \<open>The request, the upstream server and the process state\<close>

record request =
  req_method :: string
  req_path :: string
  req_args :: "(string \<times> string) list"
  req_headers :: "(string \<times> string) list"
  req_data :: string

text \<open>One call of \<^verbatim>\<open>http_session\<close> (the \<^verbatim>\<open>requests\<close> library) and its reply.\<close>

record http_call =
  up_method :: string
  up_url :: string
  up_data :: string
  up_params :: "(string \<times> string) list"
  up_headers :: "string \<rightharpoonup> string"
  up_stream :: bool

record http_reply =
  status_code :: int
  reply_headers :: "(string \<times> string) list"
  content :: string

text \<open>
  What the module reads but does not define: the method registry \<^verbatim>\<open>_api3_methods\<close>
  (filled by \<^verbatim>\<open>sgcache/web/api3.py\<close>), the upstream server behind
  \<^verbatim>\<open>http_session\<close>, the \<^verbatim>\<open>json\<close> library, \<^verbatim>\<open>app.debug\<close> and
  \<^verbatim>\<open>FALLBACK_SERVER\<close>. \<^verbatim>\<open>json.loads\<close> raises ValueError on a text that is not
  JSON (\<open>None\<close> here).
\<close>

record env =
  api3_methods :: "string \<rightharpoonup> handler"
  http :: "http_call \<Rightarrow> http_reply"
  loads :: "string \<Rightarrow> pyval option"
  dumps :: "pyval \<Rightarrow> string"
  debug :: bool
  fallback_server :: string

text \<open>
  Log records are kept as data: the level and the values a line is formatted from. The
  elapsed wall-clock time of the completion line is not modelled.
\<close>

datatype level = INFO | WARNING

datatype chunk =
    Starting pyval
  | OnType pyval
  | Batch "pyval list"
  | ByScript pyval
  | AsUser pyval
  | ByUser pyval

datatype message =
    Headline "chunk list"
  | UnknownMethod pyval "pyval option"
  | PassingThrough pyval string string "pyval option"
  | FaultLine string int string
  | ExtraYielded pyval
  | Returned "(nat \<times> pyval) option"

text \<open>
  Mutable Python objects have identity: \<open>objs\<close> is the store of the objects of one
  request, an address is an index into it, and \<^verbatim>\<open>g.api3_payload\<close> holds an address
  once \<^verbatim>\<open>json_api\<close> has set it. An object of the store owns what it contains (the
  store holds its whole value); two names for one envelope are two uses of one address.
  The state also records the calls made to the upstream server and to handlers, and
  \<^verbatim>\<open>log_globals.skip_http_log\<close>.
\<close>

type_synonym addr = nat

record state =
  objs :: "pyval list"
  api3_payload :: "addr option"
  log :: "(level \<times> message) list"
  skip_http_log :: bool
  upstream_calls :: "http_call list"
  handler_calls :: "pyval list"

section \<open>Python primitives used by the module\<close>

text \<open>Truth value of an object (\<^verbatim>\<open>if x:\<close>).\<close>

fun truthy :: "pyval \<Rightarrow> bool" where
  "truthy PNone = False"
| "truthy (PBool b) = b"
| "truthy (PInt i) = (i \<noteq> 0)"
| "truthy (PFloat r) = (r \<noteq> 0)"
| "truthy (PStr s) = (s \<noteq> [])"
| "truthy (PList xs) = (xs \<noteq> [])"
| "truthy (PTuple xs) = (xs \<noteq> [])"
| "truthy (PDict d) = (d \<noteq> [])"
| "truthy (PResponse r) = True"

text \<open>\<^verbatim>\<open>x[k]\<close> for a string key: only a dict accepts it, and raises KeyError without it.\<close>

fun subscript_str :: "pyval \<Rightarrow> string \<Rightarrow> exc + pyval" where
  "subscript_str (PDict d) k = (case map_of d (KStr k) of None \<Rightarrow> Inl KeyError | Some v \<Rightarrow> Inr v)"
| "subscript_str v k = Inl TypeError"

text \<open>
  \<^verbatim>\<open>x[i]\<close> for the index 0 or 1: a list or a tuple gives its element, a string its
  character, a dict looks the integer up as a key, anything else is not subscriptable.
\<close>

fun subscript_nat :: "pyval \<Rightarrow> nat \<Rightarrow> exc + pyval" where
  "subscript_nat (PList xs) i = (if i < length xs then Inr (xs ! i) else Inl IndexError)"
| "subscript_nat (PTuple xs) i = (if i < length xs then Inr (xs ! i) else Inl IndexError)"
| "subscript_nat (PStr s) i = (if i < length s then Inr (PStr [s ! i]) else Inl IndexError)"
| "subscript_nat (PDict d) i = (case map_of d (KInt (int i)) of None \<Rightarrow> Inl KeyError | Some v \<Rightarrow> Inr v)"
| "subscript_nat v i = Inl TypeError"

fun py_len :: "pyval \<Rightarrow> exc + nat" where
  "py_len (PList xs) = Inr (length xs)"
| "py_len (PTuple xs) = Inr (length xs)"
| "py_len (PStr s) = Inr (length s)"
| "py_len (PDict d) = Inr (length d)"
| "py_len v = Inl TypeError"

text \<open>\<^verbatim>\<open>d.get(k)\<close>: only a dict has the method.\<close>

fun py_get :: "pyval \<Rightarrow> string \<Rightarrow> exc + pyval" where
  "py_get (PDict d) k = (case map_of d (KStr k) of None \<Rightarrow> Inr PNone | Some v \<Rightarrow> Inr v)"
| "py_get v k = Inl AttributeError"

fun hashable :: "pyval \<Rightarrow> bool" where
  "hashable (PList xs) = False"
| "hashable (PDict d) = False"
| "hashable (PTuple xs) = list_all hashable xs"
| "hashable v = True"

text \<open>
  \<^verbatim>\<open>'exception' in x\<close>: a key of a dict, an element of a list or tuple, a substring of
  a string; any other operand is not iterable.
\<close>

fun contains_str :: "string \<Rightarrow> string \<Rightarrow> bool" where
  "contains_str needle [] = (needle = [])"
| "contains_str needle (c # cs) = (take (length needle) (c # cs) = needle \<or> contains_str needle cs)"

fun py_in :: "string \<Rightarrow> pyval \<Rightarrow> exc + bool" where
  "py_in k (PDict d) = Inr (map_of d (KStr k) \<noteq> None)"
| "py_in k (PList xs) = Inr (PStr k \<in> set xs)"
| "py_in k (PTuple xs) = Inr (PStr k \<in> set xs)"
| "py_in k (PStr s) = Inr (contains_str k s)"
| "py_in k v = Inl TypeError"

text \<open>
  \<^verbatim>\<open>'... %s ...' % x\<close> with one conversion in the format: a tuple on the right is
  taken as the tuple of arguments, so a 1-tuple prints its element and a tuple of any
  other length raises TypeError; any other object is the one argument.
\<close>

fun format_arg :: "pyval \<Rightarrow> exc + pyval" where
  "format_arg (PTuple xs) = (case xs of [y] \<Rightarrow> Inr y | _ \<Rightarrow> Inl TypeError)"
| "format_arg v = Inr v"

definition is_tuple :: "pyval \<Rightarrow> bool" where
  "is_tuple v = (case v of PTuple xs \<Rightarrow> True | _ \<Rightarrow> False)"

text \<open>
  \<^verbatim>\<open>json.dumps\<close> raises TypeError on an object that is not JSON serialisable, which
  among these values is a \<^verbatim>\<open>Response\<close>; a tuple is written as an array and an
  integer key as a string.
\<close>

fun serialisable :: "pyval \<Rightarrow> bool" where
  "serialisable (PResponse r) = False"
| "serialisable (PList xs) = list_all serialisable xs"
| "serialisable (PTuple xs) = list_all serialisable xs"
| "serialisable (PDict d) = list_all (\<lambda>kv. serialisable (snd kv)) d"
| "serialisable v = True"

definition json_dumps :: "env \<Rightarrow> pyval \<Rightarrow> exc + string" where
  "json_dumps e v = (if serialisable v then Inr (dumps e v) else Inl TypeError)"

definition json_loads :: "env \<Rightarrow> string \<Rightarrow> exc + pyval" where
  "json_loads e s = (case loads e s of None \<Rightarrow> Inl ValueError | Some v \<Rightarrow> Inr v)"

text \<open>\<^verbatim>\<open>str.lower()\<close> on the ASCII letters.\<close>

definition lower_char :: "char \<Rightarrow> char" where
  "lower_char c =
     (case map_of (zip ''ABCDEFGHIJKLMNOPQRSTUVWXYZ'' ''abcdefghijklmnopqrstuvwxyz'') c of
        None \<Rightarrow> c
      | Some l \<Rightarrow> l)"

definition lower :: "string \<Rightarrow> string" where
  "lower s = map lower_char s"

text \<open>
  \<^verbatim>\<open>werkzeug.http.remove_hop_by_hop_headers\<close> (a library function): it keeps, in
  place, the pairs whose key in lower case is not one of the HTTP/1.1 hop-by-hop
  headers.
\<close>

definition hop_by_hop_headers :: "string list" where
  "hop_by_hop_headers =
     [''connection'', ''keep-alive'', ''proxy-authenticate'', ''proxy-authorization'',
      ''te'', ''trailer'', ''transfer-encoding'', ''upgrade'']"

definition is_hop_by_hop_header :: "string \<Rightarrow> bool" where
  "is_hop_by_hop_header h = (lower h \<in> set hop_by_hop_headers)"

definition remove_hop_by_hop_headers :: "(string \<times> string) list \<Rightarrow> (string \<times> string) list" where
  "remove_hop_by_hop_headers hs = filter (\<lambda>kv. \<not> is_hop_by_hop_header (fst kv)) hs"

text \<open>\<^verbatim>\<open>dict(pairs)\<close>: a later pair overrides an earlier one with the same key.\<close>

definition py_dict :: "('k \<times> 'v) list \<Rightarrow> ('k \<rightharpoonup> 'v)" where
  "py_dict kvs = map_of (rev kvs)"

section \<open>The upstream client: passthrough\<close>

text \<open>
  The first lines of \<^verbatim>\<open>passthrough\<close> and of \<^verbatim>\<open>proxy\<close>: drop the Host header, then
  the hop-by-hop headers.
\<close>

definition forward_headers :: "request \<Rightarrow> (string \<times> string) list" where
  "forward_headers rq =
     remove_hop_by_hop_headers (filter (\<lambda>kv. lower (fst kv) \<noteq> ''host'') (req_headers rq))"

text \<open>
  \<^verbatim>\<open>payload['params'][-1] = params\<close> on the object \<open>payload\<close>: the item assignment
  changes the list (or dict) stored under \<^verbatim>\<open>'params'\<close>, so the result is the new
  content of the object \<open>payload\<close>.
\<close>

fun set_last :: "pyval \<Rightarrow> pyval \<Rightarrow> exc + pyval" where
  "set_last (PList xs) p = (if xs = [] then Inl IndexError else Inr (PList (butlast xs @ [p])))"
| "set_last (PDict d) p = Inr (PDict (AList.update (KInt (- 1)) p d))"
| "set_last v p = Inl TypeError"

definition set_last_param :: "pyval \<Rightarrow> pyval \<Rightarrow> exc + pyval" where
  "set_last_param payload p =
     (case subscript_str payload ''params'' of
        Inl e \<Rightarrow> Inl e
      | Inr ps \<Rightarrow>
          (case set_last ps p of
             Inl e \<Rightarrow> Inl e
           | Inr ps' \<Rightarrow>
               (case payload of
                  PDict d \<Rightarrow> Inr (PDict (AList.update (KStr ''params'') ps' d))
                | _ \<Rightarrow> Inl TypeError)))"

definition FALLBACK_URL :: "env \<Rightarrow> string" where
  "FALLBACK_URL e = fallback_server e @ ''/api3/json''"

definition json_response :: "bool \<Rightarrow> http_reply \<Rightarrow> int \<Rightarrow> response" where
  "json_response stream r st =
     \<lparr>body = content r, streamed = stream, status = st, headers = [],
      mimetype = Some ''application/json'', direct_passthrough = False\<rparr>"

definition content_type_json :: pyval where
  "content_type_json = PList [PTuple [PStr ''Content-Type'', PStr ''application/json'']]"

text \<open>
  Lines 57-58 of \<^verbatim>\<open>passthrough\<close>: without a payload argument the stored envelope is
  deep-copied into a new object; a payload given by the caller is used as it is, the
  same object.
\<close>

definition deepcopy_stored :: "state \<Rightarrow> (exc + addr) \<times> state" where
  "deepcopy_stored st =
     (case api3_payload st of
        None \<Rightarrow> (Inl AttributeError, st)
      | Some g \<Rightarrow> (Inr (length (objs st)), st\<lparr>objs := objs st @ [objs st ! g]\<rparr>))"

definition fetch_payload :: "addr option \<Rightarrow> state \<Rightarrow> (exc + addr) \<times> state" where
  "fetch_payload payload st =
     (case payload of
        None \<Rightarrow> deepcopy_stored st
      | Some a \<Rightarrow> if objs st ! a = PNone then deepcopy_stored st else (Inr a, st))"

text \<open>Lines 59-60: the override, unless it is None, is written into the object \<open>a\<close>.\<close>

definition override_params :: "addr \<Rightarrow> pyval \<Rightarrow> state \<Rightarrow> (exc + unit) \<times> state" where
  "override_params a params st =
     (if params \<noteq> PNone
      then (case set_last_param (objs st ! a) params of
              Inl x \<Rightarrow> (Inl x, st)
            | Inr v \<Rightarrow> (Inr (), st\<lparr>objs := (objs st)[a := v]\<rparr>))
      else (Inr (), st))"

text \<open>Lines 62-63: a string is sent as it is, anything else is serialised.\<close>

definition encode_payload :: "env \<Rightarrow> pyval \<Rightarrow> exc + string" where
  "encode_payload e v = (case v of PStr s \<Rightarrow> Inr s | _ \<Rightarrow> json_dumps e v)"

text \<open>Lines 81-86: the buffered reply with status 200.\<close>

definition decode_reply :: "env \<Rightarrow> bool \<Rightarrow> http_reply \<Rightarrow> exc + pyval" where
  "decode_reply e raise_exceptions r =
     (case json_loads e (content r) of
        Inl x \<Rightarrow> Inl x
      | Inr response_data \<Rightarrow>
          (if raise_exceptions
           then (case py_in ''exception'' response_data of
                   Inl x \<Rightarrow> Inl x
                 | Inr True \<Rightarrow> Inl (ReturnResponse [PStr (content r), PInt 200, content_type_json])
                 | Inr False \<Rightarrow> Inr response_data)
           else Inr response_data))"

definition post_call :: "env \<Rightarrow> request \<Rightarrow> string \<Rightarrow> bool \<Rightarrow> http_call" where
  "post_call e rq data stream =
     \<lparr>up_method = ''POST'', up_url = FALLBACK_URL e, up_data = data, up_params = [],
      up_headers = py_dict (forward_headers rq), up_stream = stream\<rparr>"

text \<open>Lines 65-86: the call of the upstream server and what becomes of its reply.\<close>

definition send_upstream ::
  "env \<Rightarrow> request \<Rightarrow> string \<Rightarrow> bool \<Rightarrow> bool \<Rightarrow> bool \<Rightarrow> state \<Rightarrow> (exc + pyval) \<times> state" where
  "send_upstream e rq data raise_exceptions stream final st =
     (let call = post_call e rq data stream;
          http_response = http e call;
          st' = st\<lparr>upstream_calls := upstream_calls st @ [call]\<rparr>
      in if status_code http_response \<noteq> 200
         then (Inl (ReturnPassthroughError
                      [PResponse (json_response stream http_response (status_code http_response))]), st')
         else if stream \<or> final
         then (Inr (PResponse (json_response stream http_response 200)), st')
         else (decode_reply e raise_exceptions http_response, st'))"

definition passthrough ::
  "env \<Rightarrow> request \<Rightarrow> addr option \<Rightarrow> pyval \<Rightarrow> bool \<Rightarrow> bool \<Rightarrow> bool \<Rightarrow> state \<Rightarrow> (exc + pyval) \<times> state" where
  "passthrough e rq payload params raise_exceptions stream final st =
     (case fetch_payload payload st of
        (Inl x, st1) \<Rightarrow> (Inl x, st1)
      | (Inr a, st1) \<Rightarrow>
          (case override_params a params st1 of
             (Inl x, st2) \<Rightarrow> (Inl x, st2)
           | (Inr u, st2) \<Rightarrow>
               (case encode_payload e (objs st2 ! a) of
                  Inl x \<Rightarrow> (Inl x, st2)
                | Inr data \<Rightarrow> send_upstream e rq data raise_exceptions stream final st2)))"

section \<open>The binary streaming proxy\<close>

definition proxy :: "env \<Rightarrow> request \<Rightarrow> state \<Rightarrow> response \<times> state" where
  "proxy e rq st =
     (let call = \<lparr>up_method = req_method rq, up_url = fallback_server e @ req_path rq,
                  up_data = req_data rq, up_params = req_args rq,
                  up_headers = py_dict (forward_headers rq), up_stream = True\<rparr>;
          remote_response = http e call
      in (\<lparr>body = content remote_response, streamed = True,
           status = status_code remote_response,
           headers = remove_hop_by_hop_headers (reply_headers remote_response),
           mimetype = None, direct_passthrough = True\<rparr>,
          st\<lparr>upstream_calls := upstream_calls st @ [call]\<rparr>))"

section \<open>The request dispatcher: json_api\<close>

definition bad_request :: pyval where
  "bad_request = PTuple [PStr [], PInt 400, PList []]"

text \<open>Lines 117-120, the body of the first \<^verbatim>\<open>try\<close>.\<close>

definition parse_envelope :: "pyval \<Rightarrow> exc + (pyval \<times> pyval \<times> pyval)" where
  "parse_envelope payload =
     (case subscript_str payload ''method_name'' of
        Inl x \<Rightarrow> Inl x
      | Inr method_name \<Rightarrow>
     (case subscript_str payload ''params'' of
        Inl x \<Rightarrow> Inl x
      | Inr params \<Rightarrow>
     (case (if truthy params then subscript_nat params 0 else Inr (PDict [])) of
        Inl x \<Rightarrow> Inl x
      | Inr auth_params \<Rightarrow>
     (case py_len params of
        Inl x \<Rightarrow> Inl x
      | Inr n \<Rightarrow>
     (case (if 1 < n then subscript_nat params 1 else Inr (PDict [])) of
        Inl x \<Rightarrow> Inl x
      | Inr method_params \<Rightarrow> Inr (method_name, auth_params, method_params))))))"

text \<open>
  Lines 125-148, the headline. The loop over a batch reads
  \<^verbatim>\<open>x['request_type']\<close> of every item and uses it as a dict key; the chunk keeps the
  request types in the order of the items (the counts per type and their order in the
  line are computed from them). \<^verbatim>\<open>entity_type\<close> is bound only when the method
  params are a dict: the second component is \<open>None\<close> when it is not. A chunk that
  is formatted from one value carries what \<open>format_arg\<close> makes of it.
\<close>

fun batch_types :: "pyval list \<Rightarrow> exc + pyval list" where
  "batch_types [] = Inr []"
| "batch_types (x # xs) =
     (case subscript_str x ''request_type'' of
        Inl e \<Rightarrow> Inl e
      | Inr t \<Rightarrow>
          (if hashable t
           then (case batch_types xs of Inl e \<Rightarrow> Inl e | Inr ts \<Rightarrow> Inr (t # ts))
           else Inl TypeError))"

definition describe_params :: "pyval \<Rightarrow> pyval \<Rightarrow> exc + (chunk list \<times> pyval option)" where
  "describe_params method_name method_params =
     (case method_params of
        PDict d \<Rightarrow>
          (case py_get method_params ''type'' of
             Inl x \<Rightarrow> Inl x
           | Inr entity_type \<Rightarrow>
               (if truthy entity_type
                then (case format_arg entity_type of
                        Inl x \<Rightarrow> Inl x
                      | Inr shown \<Rightarrow> Inr ([OnType shown], Some entity_type))
                else Inr ([], Some entity_type)))
      | PList xs \<Rightarrow>
          (if method_name = PStr ''batch''
           then (case batch_types xs of Inl x \<Rightarrow> Inl x | Inr ts \<Rightarrow> Inr ([Batch ts], None))
           else Inr ([], None))
      | _ \<Rightarrow> Inr ([], None))"

definition describe_actor :: "pyval \<Rightarrow> exc + chunk list" where
  "describe_actor auth_params =
     (case py_get auth_params ''script_name'' of
        Inl x \<Rightarrow> Inl x
      | Inr script_name \<Rightarrow>
          (if truthy script_name
           then (case format_arg script_name of
                   Inl x \<Rightarrow> Inl x
                 | Inr script \<Rightarrow>
                     (case py_get auth_params ''sudo_as_login'' of
                        Inl x \<Rightarrow> Inl x
                      | Inr sudo_as_login \<Rightarrow>
                          (if truthy sudo_as_login
                           then (case format_arg sudo_as_login of
                                   Inl x \<Rightarrow> Inl x
                                 | Inr user \<Rightarrow> Inr [ByScript script, AsUser user])
                           else Inr [ByScript script])))
           else (case py_get auth_params ''user_login'' of
                   Inl x \<Rightarrow> Inl x
                 | Inr user_login \<Rightarrow>
                     (if truthy user_login
                      then (case format_arg user_login of
                              Inl x \<Rightarrow> Inl x
                            | Inr user \<Rightarrow> Inr [ByUser user])
                      else Inr []))))"

definition headline :: "pyval \<Rightarrow> pyval \<Rightarrow> pyval \<Rightarrow> exc + (chunk list \<times> pyval option)" where
  "headline method_name auth_params method_params =
     (case format_arg method_name of
        Inl x \<Rightarrow> Inl x
      | Inr name \<Rightarrow>
          (case describe_params method_name method_params of
             Inl x \<Rightarrow> Inl x
           | Inr (cs, entity_type) \<Rightarrow>
               (case describe_actor auth_params of
                  Inl x \<Rightarrow> Inl x
                | Inr actor \<Rightarrow> Inr (Starting name # cs @ actor, entity_type))))"

text \<open>
  \<^verbatim>\<open>_api3_methods[method_name]\<close>: the registry is keyed by function names, so only
  a string can be found; a list or a dict is unhashable, a TypeError that the
  \<^verbatim>\<open>except KeyError\<close> does not catch.
\<close>

definition lookup_method :: "env \<Rightarrow> pyval \<Rightarrow> exc + handler" where
  "lookup_method e method_name =
     (case method_name of
        PStr s \<Rightarrow> (case api3_methods e s of None \<Rightarrow> Inl KeyError | Some h \<Rightarrow> Inr h)
      | _ \<Rightarrow> if hashable method_name then Inl KeyError else Inl TypeError)"

text \<open>
  The detail of the two passing-through lines:
  \<^verbatim>\<open>json.dumps(method_params, sort_keys=True, indent=4)\<close> when \<^verbatim>\<open>app.debug\<close> is set
  and the method params are not empty.
\<close>

definition detail_of :: "env \<Rightarrow> pyval \<Rightarrow> exc + pyval option" where
  "detail_of e method_params =
     (if debug e \<and> truthy method_params
      then (if serialisable method_params then Inr (Some method_params) else Inl TypeError)
      else Inr None)"

definition add_log :: "level \<Rightarrow> message \<Rightarrow> state \<Rightarrow> state" where
  "add_log l m st = st\<lparr>log := log st @ [(l, m)]\<rparr>"

text \<open>Lines 152-158: the method is unknown, the request goes upstream in streaming mode.\<close>

definition unknown_method :: "env \<Rightarrow> request \<Rightarrow> pyval \<Rightarrow> pyval \<Rightarrow> state \<Rightarrow> (exc + pyval) \<times> state" where
  "unknown_method e rq method_name method_params st =
     (case detail_of e method_params of
        Inl x \<Rightarrow> (Inl x, st)
      | Inr detail \<Rightarrow>
          passthrough e rq None PNone True True False
            (add_log INFO (UnknownMethod method_name detail) st))"

text \<open>
  Lines 179-180, \<^verbatim>\<open>for x in coroutine: log.warning(...)\<close>: the generator is advanced
  until it finishes or raises, and every value it yields meanwhile is logged. The
  message is built with \<^verbatim>\<open>'...%r' % x\<close>, which raises TypeError when \<open>x\<close> is a
  tuple of a length other than 1. The loop does not end on a generator that yields for
  ever: \<open>None\<close>.
\<close>

partial_function (option) drain :: "gen \<Rightarrow> state \<Rightarrow> (exc option \<times> state) option" where
  "drain g st =
     (case g of
        Stop \<Rightarrow> Some (None, st)
      | Raise x \<Rightarrow> Some (Some x, st)
      | Yield v k \<Rightarrow>
          (case format_arg v of
             Inl x \<Rightarrow> Some (Some x, st)
           | Inr shown \<Rightarrow> drain (k (Send PNone)) (add_log WARNING (ExtraYielded shown) st)))"

declare drain.simps [code]

text \<open>
  Line 178 and the loop: \<open>g\<close> is what the generator does once it has been sent the
  upstream result. \<^verbatim>\<open>coroutine.send\<close> returns the next value the generator yields,
  which becomes \<^verbatim>\<open>result\<close>, and raises StopIteration when the generator finishes
  without yielding again.
\<close>

definition send_and_drain :: "gen \<Rightarrow> state \<Rightarrow> ((exc + pyval) \<times> state) option" where
  "send_and_drain g st =
     (case g of
        Stop \<Rightarrow> Some (Inl StopIteration, st)
      | Raise x \<Rightarrow> Some (Inl x, st)
      | Yield result k \<Rightarrow>
          (case drain (k (Send PNone)) st of
             None \<Rightarrow> None
           | Some (None, st') \<Rightarrow> Some (Inr result, st')
           | Some (Some x, st') \<Rightarrow> Some (Inl x, st')))"

text \<open>
  Lines 171-180. The module never imports \<^verbatim>\<open>sys\<close>: in the bare \<^verbatim>\<open>except\<close>, evaluating
  \<^verbatim>\<open>sys.exc_info()\<close> raises NameError before \<^verbatim>\<open>coroutine.throw\<close> is called, whatever
  \<^verbatim>\<open>passthrough\<close> raised.
\<close>

definition drive :: "env \<Rightarrow> request \<Rightarrow> gen \<Rightarrow> state \<Rightarrow> ((exc + pyval) \<times> state) option" where
  "drive e rq coroutine st =
     (case coroutine of
        Stop \<Rightarrow> Some (Inl StopIteration, st)
      | Raise x \<Rightarrow> Some (Inl x, st)
      | Yield passthrough_params k \<Rightarrow>
          (case passthrough e rq None passthrough_params True False False st of
             (Inl x, st') \<Rightarrow> Some (Inl NameError, st')
           | (Inr passthrough_results, st') \<Rightarrow> send_and_drain (k (Send passthrough_results)) st'))"

text \<open>Lines 164-180, the body of the second \<^verbatim>\<open>try\<close>.\<close>

definition run_method ::
  "env \<Rightarrow> request \<Rightarrow> handler \<Rightarrow> pyval \<Rightarrow> state \<Rightarrow> ((exc + pyval) \<times> state) option" where
  "run_method e rq method method_params st =
     (let st' = st\<lparr>handler_calls := handler_calls st @ [method_params]\<rparr>
      in case method method_params of
           Returns result \<Rightarrow> Some (Inr result, st')
         | Raises x \<Rightarrow> Some (Inl x, st')
         | Generator coroutine \<Rightarrow> drive e rq coroutine st')"

text \<open>
  Lines 184-210, the \<^verbatim>\<open>except\<close> clauses. In the clause for a Fault the dict is bound
  to \<^verbatim>\<open>result_data\<close> and the next statement reads \<^verbatim>\<open>res_data\<close>, a name that is
  bound nowhere: NameError, after the warning has been logged.
\<close>

definition handle_signal ::
  "env \<Rightarrow> request \<Rightarrow> pyval \<Rightarrow> pyval \<Rightarrow> exc \<Rightarrow> state \<Rightarrow> (exc + pyval) \<times> state" where
  "handle_signal e rq method_name method_params x st =
     (case x of
        ReturnResponse args \<Rightarrow> (Inr (PTuple args), st)
      | ReturnPassthroughError args \<Rightarrow> (Inr (PTuple args), st)
      | Fault cls code msg \<Rightarrow> (Inl NameError, add_log WARNING (FaultLine cls code msg) st)
      | Passthrough cls msg \<Rightarrow>
          (case detail_of e method_params of
             Inl y \<Rightarrow> (Inl y, st)
           | Inr detail \<Rightarrow>
               passthrough e rq None PNone True True False
                 (add_log INFO (PassingThrough method_name cls msg detail) st))
      | _ \<Rightarrow> (Inl x, st))"

text \<open>Lines 212-215.\<close>

definition num_entities_of :: "pyval \<Rightarrow> exc + nat option" where
  "num_entities_of result =
     (case result of
        PDict d \<Rightarrow>
          (case map_of d (KStr ''entities'') of
             None \<Rightarrow> Inr None
           | Some es \<Rightarrow> (case py_len es of Inl x \<Rightarrow> Inl x | Inr n \<Rightarrow> Inr (Some n)))
      | _ \<Rightarrow> Inr None)"

text \<open>Lines 219-220: a Response, or a list or tuple that starts with one, is left alone.\<close>

definition is_response :: "pyval \<Rightarrow> bool" where
  "is_response v = (case v of PResponse r \<Rightarrow> True | _ \<Rightarrow> False)"

definition wraps_response :: "pyval \<Rightarrow> exc + bool" where
  "wraps_response result =
     (case result of
        PResponse r \<Rightarrow> Inr True
      | PList xs \<Rightarrow> (case xs of [] \<Rightarrow> Inl IndexError | y # ys \<Rightarrow> Inr (is_response y))
      | PTuple xs \<Rightarrow> (case xs of [] \<Rightarrow> Inl IndexError | y # ys \<Rightarrow> Inr (is_response y))
      | _ \<Rightarrow> Inr False)"

definition serialise_result :: "env \<Rightarrow> pyval \<Rightarrow> exc + pyval" where
  "serialise_result e result =
     (case wraps_response result of
        Inl x \<Rightarrow> Inl x
      | Inr True \<Rightarrow> Inr result
      | Inr False \<Rightarrow>
          (case json_dumps e result of
             Inl x \<Rightarrow> Inl x
           | Inr s \<Rightarrow> Inr (PTuple [PStr s, PInt 200, content_type_json])))"

text \<open>
  Lines 223-226: the count is printed when it is neither None nor 0, with
  \<^verbatim>\<open>entity_type\<close>, which is unbound when the method params were not a dict.
\<close>

definition completion_line :: "nat option \<Rightarrow> pyval option \<Rightarrow> exc + message" where
  "completion_line num_entities entity_type =
     (case num_entities of
        None \<Rightarrow> Inr (Returned None)
      | Some n \<Rightarrow>
          (if n = 0 then Inr (Returned None)
           else (case entity_type of
                   None \<Rightarrow> Inl UnboundLocalError
                 | Some t \<Rightarrow> Inr (Returned (Some (n, t))))))"

text \<open>Lines 212-229.\<close>

definition finish :: "env \<Rightarrow> pyval option \<Rightarrow> pyval \<Rightarrow> state \<Rightarrow> (exc + pyval) \<times> state" where
  "finish e entity_type result st =
     (case num_entities_of result of
        Inl x \<Rightarrow> (Inl x, st)
      | Inr num_entities \<Rightarrow>
          (case serialise_result e result of
             Inl x \<Rightarrow> (Inl x, st)
           | Inr result' \<Rightarrow>
               (case completion_line num_entities entity_type of
                  Inl x \<Rightarrow> (Inl x, st)
                | Inr m \<Rightarrow> (Inr result', (add_log INFO m st)\<lparr>skip_http_log := True\<rparr>))))"

text \<open>
  Lines 162-210, the whole \<^verbatim>\<open>try\<close> statement: \<open>Inr\<close> is the value of
  \<^verbatim>\<open>result\<close> after it, the raw result.
\<close>

definition try_result ::
  "env \<Rightarrow> request \<Rightarrow> handler \<Rightarrow> pyval \<Rightarrow> pyval \<Rightarrow> state \<Rightarrow>
   ((exc + pyval) \<times> state) option" where
  "try_result e rq method method_name method_params st =
     (case run_method e rq method method_params st of
        None \<Rightarrow> None
      | Some (Inr result, st') \<Rightarrow> Some (Inr result, st')
      | Some (Inl x, st') \<Rightarrow> Some (handle_signal e rq method_name method_params x st'))"

text \<open>Lines 160-229: a registered method.\<close>

definition known_method ::
  "env \<Rightarrow> request \<Rightarrow> handler \<Rightarrow> pyval \<Rightarrow> pyval \<Rightarrow> pyval option \<Rightarrow> state \<Rightarrow>
   ((exc + pyval) \<times> state) option" where
  "known_method e rq method method_name method_params entity_type st =
     (case try_result e rq method method_name method_params st of
        None \<Rightarrow> None
      | Some (Inl x, st') \<Rightarrow> Some (Inl x, st')
      | Some (Inr result, st') \<Rightarrow> Some (finish e entity_type result st'))"

text \<open>Lines 124-229: the envelope has been taken apart.\<close>

definition dispatch ::
  "env \<Rightarrow> request \<Rightarrow> pyval \<Rightarrow> pyval \<Rightarrow> pyval \<Rightarrow> state \<Rightarrow> ((exc + pyval) \<times> state) option" where
  "dispatch e rq method_name auth_params method_params st =
     (case headline method_name auth_params method_params of
        Inl x \<Rightarrow> Some (Inl x, st)
      | Inr (headline_chunks, entity_type) \<Rightarrow>
          (let st' = add_log INFO (Headline headline_chunks) st
           in case lookup_method e method_name of
                Inl x \<Rightarrow>
                  (if x = KeyError
                   then Some (unknown_method e rq method_name method_params st')
                   else Some (Inl x, st'))
              | Inr method \<Rightarrow>
                  known_method e rq method method_name method_params entity_type st'))"

text \<open>
  The view function. \<open>Inl\<close> is an exception that leaves it, \<open>Inr\<close> the value it
  returns, \<open>None\<close> a call that does not return.
\<close>

definition is_dict :: "pyval \<Rightarrow> bool" where
  "is_dict v = (case v of PDict d \<Rightarrow> True | _ \<Rightarrow> False)"

definition json_api :: "env \<Rightarrow> request \<Rightarrow> state \<Rightarrow> ((exc + pyval) \<times> state) option" where
  "json_api e rq st =
     (case json_loads e (req_data rq) of
        Inl x \<Rightarrow> Some (Inl x, st)
      | Inr payload \<Rightarrow>
          (let st' = st\<lparr>objs := objs st @ [payload], api3_payload := Some (length (objs st))\<rparr>
           in if \<not> is_dict payload then Some (Inr bad_request, st')
              else (case parse_envelope payload of
                      Inl x \<Rightarrow> if x = KeyError then Some (Inr bad_request, st') else Some (Inl x, st')
                    | Inr (method_name, auth_params, method_params) \<Rightarrow>
                        dispatch e rq method_name auth_params method_params st')))"

section \<open>Concrete requests, handlers and upstream replies\<close>

text \<open>
  A small world to run the dispatcher in: a JSON codec given by a table (the texts are
  written without the quotation marks of JSON), a request that carries a Host and a
  hop-by-hop header, an upstream server with a fixed reply, and a few handlers.
\<close>

definition auth_tool :: pyval where
  "auth_tool = PDict [(KStr ''script_name'', PStr ''tool'')]"

definition shot_params :: pyval where
  "shot_params = PDict [(KStr ''type'', PStr ''Shot'')]"

definition shot_override :: pyval where
  "shot_override = PDict [(KStr ''type'', PStr ''Shot''), (KStr ''code'', PStr ''sh010'')]"

definition envelope :: "string \<Rightarrow> pyval \<Rightarrow> pyval" where
  "envelope method_name params =
     PDict [(KStr ''method_name'', PStr method_name), (KStr ''params'', params)]"

definition created_shot :: pyval where
  "created_shot = PDict [(KStr ''results'', PDict [(KStr ''id'', PInt 7)])]"

definition found_shots :: pyval where
  "found_shots =
     PDict [(KStr ''entities'', PList [PDict [(KStr ''id'', PInt 7)], PDict [(KStr ''id'', PInt 8)]])]"

definition sample_codec :: "(string \<times> pyval) list" where
  "sample_codec =
     [(''{method_name: find, params: [{script_name: tool}, {type: Shot}]}'',
       envelope ''find'' (PList [auth_tool, shot_params])),
      (''{method_name: create, params: [{script_name: tool}, {type: Shot}]}'',
       envelope ''create'' (PList [auth_tool, shot_params])),
      (''{method_name: create, params: [{script_name: tool}, {type: Shot, code: sh010}]}'',
       envelope ''create'' (PList [auth_tool, shot_override])),
      (''{method_name: create, params: [{script_name: tool}]}'',
       envelope ''create'' (PList [auth_tool])),
      (''{method_name: create, params: [{type: Shot, code: sh010}]}'',
       envelope ''create'' (PList [shot_override])),
      (''{method_name: find, params: 5}'', envelope ''find'' (PInt 5)),
      (''{params: [{script_name: tool}, {type: Shot}]}'',
       PDict [(KStr ''params'', PList [auth_tool, shot_params])]),
      (''[1]'', PList [PInt 1]),
      (''{results: {id: 7}}'', created_shot),
      (''{entities: [{id: 7}, {id: 8}]}'', found_shots),
      (''{exception: false}'', PDict [(KStr ''exception'', PBool False)]),
      (''{exception: true, error_code: 104, message: denied}'',
       PDict [(KStr ''exception'', PBool True), (KStr ''error_code'', PInt 104),
              (KStr ''message'', PStr ''denied'')])]"

definition sample_loads :: "string \<Rightarrow> pyval option" where
  "sample_loads s = map_of sample_codec s"

definition sample_dumps :: "pyval \<Rightarrow> string" where
  "sample_dumps v =
     (case map_of (map (\<lambda>sv. (snd sv, fst sv)) sample_codec) v of
        None \<Rightarrow> ''null''
      | Some s \<Rightarrow> s)"

definition sample_env :: "(string \<rightharpoonup> handler) \<Rightarrow> http_reply \<Rightarrow> env" where
  "sample_env methods reply =
     \<lparr>api3_methods = methods, http = (\<lambda>call. reply), loads = sample_loads,
      dumps = sample_dumps, debug = False, fallback_server = ''https://sg.example.com''\<rparr>"

definition sample_request :: "string \<Rightarrow> request" where
  "sample_request data =
     \<lparr>req_method = ''POST'', req_path = ''/api3/json'', req_args = [],
      req_headers = [(''Host'', ''cache''), (''Connection'', ''close''), (''Accept'', ''*/*'')],
      req_data = data\<rparr>"

definition upload_request :: request where
  "upload_request =
     \<lparr>req_method = ''POST'', req_path = ''/upload/1'', req_args = [],
      req_headers = [(''HOST'', ''cache''), (''Transfer-Encoding'', ''chunked''),
                     (''Accept'', ''*/*'')],
      req_data = ''PNG''\<rparr>"

definition ok_reply :: "string \<Rightarrow> http_reply" where
  "ok_reply text =
     \<lparr>status_code = 200,
      reply_headers = [(''Content-Type'', ''application/json''), (''ETag'', ''1'')],
      content = text\<rparr>"

definition retagged_reply :: "string \<Rightarrow> http_reply" where
  "retagged_reply text =
     \<lparr>status_code = 200,
      reply_headers = [(''Content-Type'', ''application/json''), (''ETag'', ''2'')],
      content = text\<rparr>"

definition error_reply :: http_reply where
  "error_reply = \<lparr>status_code = 503, reply_headers = [], content = ''unavailable''\<rparr>"

definition host_reply :: http_reply where
  "host_reply =
     \<lparr>status_code = 200,
      reply_headers = [(''Host'', ''sg''), (''Keep-Alive'', ''timeout=5''), (''ETag'', ''1'')],
      content = ''PNG''\<rparr>"

definition start_state :: state where
  "start_state =
     \<lparr>objs = [], api3_payload = None, log = [], skip_http_log = False,
      upstream_calls = [], handler_calls = []\<rparr>"

text \<open>The state of a request whose envelope (two params) is stored as object 0.\<close>

definition stored_state :: state where
  "stored_state =
     start_state\<lparr>objs := [envelope ''create'' (PList [auth_tool, shot_params])],
                 api3_payload := Some 0\<rparr>"

text \<open>
  Handlers. \<open>not_found\<close> raises the Fault of the spec's example. \<open>create_once\<close>
  yields an override and finishes when it is resumed. \<open>create_shot\<close> yields an
  override, and then yields what it was sent as its result, or, if the failure of the
  upstream call is thrown into it, yields a local answer instead. \<open>chatty\<close> yields
  two more values after its result.
\<close>

definition not_found :: handler where
  "not_found method_params = Raises (Fault ''Fault'' 102 ''Not found'')"

definition finished :: "resume \<Rightarrow> gen" where
  "finished r = Stop"

definition answer :: "resume \<Rightarrow> gen" where
  "answer r =
     (case r of
        Send v \<Rightarrow> Yield v finished
      | Throw x \<Rightarrow> Yield (PStr ''answered locally'') finished)"

definition create_once :: handler where
  "create_once method_params = Generator (Yield shot_override finished)"

definition create_shot :: handler where
  "create_shot method_params = Generator (Yield shot_override answer)"

definition chatter :: "resume \<Rightarrow> gen" where
  "chatter r = Yield (PInt 1) (\<lambda>r1. Yield (PInt 2) finished)"

definition chatty :: handler where
  "chatty method_params =
     Generator (Yield shot_override (\<lambda>r. Yield created_shot chatter))"

definition find_shots :: handler where
  "find_shots method_params = Returns found_shots"

text \<open>
  \<open>extra_yields g xs\<close>: advanced by \<^verbatim>\<open>next\<close> again and again, the generator \<open>g\<close>
  yields the values \<open>xs\<close> and then finishes.
\<close>

fun extra_yields :: "gen \<Rightarrow> pyval list \<Rightarrow> bool" where
  "extra_yields g [] = (case g of Stop \<Rightarrow> True | _ \<Rightarrow> False)"
| "extra_yields g (x # xs) =
     (case g of Yield v k \<Rightarrow> v = x \<and> extra_yields (k (Send PNone)) xs | _ \<Rightarrow> False)"

definition warnings :: "state \<Rightarrow> message list" where
  "warnings st = map snd (filter (\<lambda>lm. fst lm = WARNING) (log st))"

section \<open>Auxiliary facts\<close>

lemmas sample_defs =
  sample_env_def sample_loads_def sample_dumps_def sample_codec_def
  envelope_def auth_tool_def shot_params_def shot_override_def created_shot_def found_shots_def
  ok_reply_def retagged_reply_def error_reply_def host_reply_def start_state_def stored_state_def
  create_once_def
  not_found_def answer_def create_shot_def chatty_def chatter_def finished_def find_shots_def

lemmas passthrough_defs =
  passthrough_def fetch_payload_def deepcopy_stored_def override_params_def set_last_param_def
  encode_payload_def send_upstream_def decode_reply_def post_call_def json_response_def
  FALLBACK_URL_def content_type_json_def json_loads_def json_dumps_def

lemmas dispatcher_defs =
  json_api_def is_dict_def parse_envelope_def dispatch_def headline_def describe_params_def
  describe_actor_def lookup_method_def detail_of_def add_log_def unknown_method_def
  try_result_def known_method_def run_method_def drive_def send_and_drain_def handle_signal_def finish_def
  num_entities_of_def serialise_result_def wraps_response_def is_response_def
  completion_line_def bad_request_def

lemma dom_py_dict: "dom (py_dict kvs) = fst ` set kvs"
  by (simp add: py_dict_def dom_map_of_conv_image_fst)

lemma forward_headers_clean:
  assumes "k \<in> dom (py_dict (forward_headers rq))"
  shows "lower k \<noteq> ''host'' \<and> lower k \<notin> set hop_by_hop_headers"
  using assms
  by (auto simp: dom_py_dict forward_headers_def remove_hop_by_hop_headers_def
      is_hop_by_hop_header_def)

lemma relayed_headers_clean:
  assumes "k \<in> fst ` set (remove_hop_by_hop_headers hs)"
  shows "lower k \<notin> set hop_by_hop_headers"
  using assms by (auto simp: remove_hop_by_hop_headers_def is_hop_by_hop_header_def)

text \<open>The loop over the generator, one equation per shape of the generator.\<close>

lemma drain_Stop: "drain Stop st = Some (None, st)"
  by (subst drain.simps) simp

lemma drain_Raise: "drain (Raise x) st = Some (Some x, st)"
  by (subst drain.simps) simp

lemma drain_Yield:
  "drain (Yield v k) st =
     (case format_arg v of
        Inl x \<Rightarrow> Some (Some x, st)
      | Inr shown \<Rightarrow> drain (k (Send PNone)) (add_log WARNING (ExtraYielded shown) st))"
  by (subst drain.simps) simp

lemma format_arg_plain: "\<not> is_tuple v \<Longrightarrow> format_arg v = Inr v"
  by (cases v) (simp_all add: is_tuple_def)

lemmas drain_eqs = drain_Stop drain_Raise drain_Yield

lemma drain_extra_yields:
  "extra_yields g xs \<Longrightarrow> list_all (\<lambda>x. \<not> is_tuple x) xs \<Longrightarrow>
   drain g st = Some (None, st\<lparr>log := log st @ map (\<lambda>x. (WARNING, ExtraYielded x)) xs\<rparr>)"
proof (induction xs arbitrary: g st)
  case Nil
  then show ?case by (cases g) (simp_all add: drain_Stop)
next
  case (Cons x xs)
  then obtain k where g: "g = Yield x k" and rest: "extra_yields (k (Send PNone)) xs"
    by (cases g) auto
  from Cons.prems(2) have x: "format_arg x = Inr x" and xs: "list_all (\<lambda>x. \<not> is_tuple x) xs"
    by (simp_all add: format_arg_plain)
  show ?case
    unfolding g drain_Yield x using Cons.IH [OF rest xs] by (simp add: add_log_def)
qed




text \<open>What one call of \<open>passthrough\<close> adds to the calls made upstream.\<close>

lemma send_upstream_calls:
  "upstream_calls (snd (send_upstream e rq data re stream final st)) =
   upstream_calls st @ [post_call e rq data stream]"
  by (simp add: send_upstream_def Let_def)

lemma fetch_payload_calls:
  "fetch_payload payload st = (r, st') \<Longrightarrow> upstream_calls st' = upstream_calls st"
  by (auto simp: fetch_payload_def deepcopy_stored_def split: option.splits if_splits)

lemma override_params_calls:
  "override_params a params st = (r, st') \<Longrightarrow> upstream_calls st' = upstream_calls st"
  by (auto simp: override_params_def split: sum.splits if_splits)

lemma passthrough_calls:
  "upstream_calls (snd (passthrough e rq payload params re stream final st)) = upstream_calls st \<or>
   (\<exists>data. upstream_calls (snd (passthrough e rq payload params re stream final st)) =
            upstream_calls st @ [post_call e rq data stream])"
proof (cases "fetch_payload payload st")
  case (Pair r1 st1)
  note f = this
  show ?thesis
  proof (cases r1)
    case (Inl x)
    with f fetch_payload_calls [OF f] show ?thesis by (simp add: passthrough_def)
  next
    case (Inr a)
    note r1 = this
    show ?thesis
    proof (cases "override_params a params st1")
      case (Pair r2 st2)
      note ov = this
      have calls: "upstream_calls st2 = upstream_calls st"
        using fetch_payload_calls [OF f] override_params_calls [OF ov] by simp
      show ?thesis
      proof (cases r2)
        case (Inl x)
        with f r1 ov calls show ?thesis by (simp add: passthrough_def)
      next
        case (Inr u)
        note r2 = this
        show ?thesis
        proof (cases "encode_payload e (objs st2 ! a)")
          case (Inl x)
          with f r1 ov r2 calls show ?thesis by (simp add: passthrough_def)
        next
          case (Inr data)
          with f r1 ov r2 calls show ?thesis
            by (auto simp: passthrough_def send_upstream_calls)
        qed
      qed
    qed
  qed
qed

lemma passthrough_Inr_calls:
  assumes "passthrough e rq payload params re stream final st = (Inr v, st')"
  shows "\<exists>data. upstream_calls st' = upstream_calls st @ [post_call e rq data stream]"
proof -
  obtain r1 st1 where f: "fetch_payload payload st = (r1, st1)" by (cases "fetch_payload payload st")
  with assms obtain a where r1: "r1 = Inr a" by (cases r1) (auto simp: passthrough_def)
  obtain r2 st2 where ov: "override_params a params st1 = (r2, st2)"
    by (cases "override_params a params st1")
  with assms f r1 obtain u where r2: "r2 = Inr u" by (cases r2) (auto simp: passthrough_def)
  from assms f r1 ov r2 obtain data where enc: "encode_payload e (objs st2 ! a) = Inr data"
    by (cases "encode_payload e (objs st2 ! a)") (auto simp: passthrough_def)
  have "st' = snd (send_upstream e rq data re stream final st2)"
    using assms f r1 ov r2 enc by (simp add: passthrough_def)
  then show ?thesis
    using send_upstream_calls [of e rq data re stream final st2]
      fetch_payload_calls [OF f] override_params_calls [OF ov] by auto
qed

text \<open>Serialisable values stay serialisable under the item assignments.\<close>

lemma list_all_update:
  "list_all P d \<Longrightarrow> P (k, v) \<Longrightarrow> list_all P (AList.update k v d)"
  by (induction d) auto

lemma list_all_butlast: "list_all P xs \<Longrightarrow> list_all P (butlast xs)"
  by (induction xs) auto

lemma serialisable_set_last:
  "set_last ps p = Inr ps' \<Longrightarrow> serialisable ps \<Longrightarrow> serialisable p \<Longrightarrow> serialisable ps'"
  by (cases ps) (auto simp: list_all_update list_all_butlast split: if_splits)

lemma serialisable_set_last_param:
  assumes "set_last_param v p = Inr v'" and "serialisable v" and "serialisable p"
  shows "serialisable v'"
proof -
  from assms(1) obtain d ps ps' where v: "v = PDict d"
    and ps: "map_of d (KStr ''params'') = Some ps" and sl: "set_last ps p = Inr ps'"
    and v': "v' = PDict (AList.update (KStr ''params'') ps' d)"
    by (cases v) (auto simp: set_last_param_def split: option.splits sum.splits)
  from ps have "(KStr ''params'', ps) \<in> set d" by (rule map_of_SomeD)
  with assms(2) v have "serialisable ps" by (auto simp: list_all_iff)
  with sl assms(3) have "serialisable ps'" by (simp add: serialisable_set_last)
  with assms(2) v v' show ?thesis by (simp add: list_all_update)
qed

text \<open>The headers of the sample requests and replies, filtered once.\<close>

lemmas header_defs =
  forward_headers_def remove_hop_by_hop_headers_def is_hop_by_hop_header_def
  hop_by_hop_headers_def lower_def lower_char_def

lemma sample_request_data: "req_data (sample_request data) = data"
  by (simp add: sample_request_def)

lemma sample_request_forwarded: "forward_headers (sample_request data) = [(''Accept'', ''*/*'')]"
  by (simp add: sample_request_def header_defs)

lemma upload_request_forwarded: "forward_headers upload_request = [(''Accept'', ''*/*'')]"
  by (simp add: upload_request_def header_defs)

lemma host_reply_relayed:
  "remove_hop_by_hop_headers (reply_headers host_reply) = [(''Host'', ''sg''), (''ETag'', ''1'')]"
  by (simp add: host_reply_def header_defs)

lemma lower_Accept: "lower ''Accept'' = ''accept''"
  by (simp add: lower_def lower_char_def)

lemma lower_Host: "lower ''Host'' = ''host''"
  by (simp add: lower_def lower_char_def)

lemmas sample_request_simps = sample_request_data sample_request_forwarded

lemma proxy_host_reply:
  "proxy (sample_env Map.empty host_reply) upload_request st =
     (\<lparr>body = ''PNG'', streamed = True, status = 200,
       headers = [(''Host'', ''sg''), (''ETag'', ''1'')],
       mimetype = None, direct_passthrough = True\<rparr>,
      st\<lparr>upstream_calls := upstream_calls st @
        [\<lparr>up_method = req_method upload_request,
          up_url = ''https://sg.example.com'' @ req_path upload_request,
          up_data = req_data upload_request, up_params = req_args upload_request,
          up_headers = py_dict [(''Accept'', ''*/*'')], up_stream = True\<rparr>]\<rparr>)"
  using host_reply_relayed
  by (simp add: proxy_def sample_env_def upload_request_forwarded Let_def host_reply_def)

section \<open>A Fault raised by a handler (C1)\<close>

text \<open>
  C1 is what the code sets out to do (lines 187-196) and misses: the handler of the
  spec's example raises Fault 102 "Not found"; the warning is logged, and then
  \<^verbatim>\<open>json.dumps(res_data)\<close> reads a name that was never bound (the dict was assigned
  to \<^verbatim>\<open>result_data\<close>). On this request the dispatcher returns no response: a
  NameError leaves \<open>json_api\<close>, without the completion line.
\<close>

theorem fault_raises_NameError:
  "map_option fst
     (json_api (sample_env [''create'' \<mapsto> not_found] (ok_reply ''{results: {id: 7}}''))
        (sample_request ''{method_name: create, params: [{script_name: tool}, {type: Shot}]}'')
        start_state)
     = Some (Inl NameError)
   \<and> map_option (warnings \<circ> snd)
     (json_api (sample_env [''create'' \<mapsto> not_found] (ok_reply ''{results: {id: 7}}''))
        (sample_request ''{method_name: create, params: [{script_name: tool}, {type: Shot}]}'')
        start_state)
     = Some [FaultLine ''Fault'' 102 ''Not found'']
   \<and> map_option (skip_http_log \<circ> snd)
     (json_api (sample_env [''create'' \<mapsto> not_found] (ok_reply ''{results: {id: 7}}''))
        (sample_request ''{method_name: create, params: [{script_name: tool}, {type: Shot}]}'')
        start_state)
     = Some False"
  by (simp add: dispatcher_defs json_loads_def sample_defs sample_request_simps warnings_def)

section \<open>A failed upstream call of a two-phase handler (C2)\<close>

text \<open>
  C2 is what lines 173-176 set out to do and miss: the handler \<open>create_shot\<close> yields its
  override once and would answer locally if the failure were thrown into it. The
  upstream server replies 503, \<open>passthrough\<close> raises ReturnPassthroughError, and the
  \<^verbatim>\<open>except\<close> clause evaluates \<^verbatim>\<open>sys.exc_info()\<close> in a module that does not import
  \<^verbatim>\<open>sys\<close>: a NameError leaves \<open>json_api\<close>, the generator is never resumed and no
  response is returned.
\<close>

theorem upstream_failure_raises_NameError:
  "answer (Throw (ReturnPassthroughError [])) = Yield (PStr ''answered locally'') finished
   \<and> map_option fst
     (json_api (sample_env [''create'' \<mapsto> create_shot] error_reply)
        (sample_request ''{method_name: create, params: [{script_name: tool}, {type: Shot}]}'')
        start_state)
     = Some (Inl NameError)
   \<and> map_option (map status_code \<circ> map (http (sample_env [''create'' \<mapsto> create_shot] error_reply))
        \<circ> upstream_calls \<circ> snd)
     (json_api (sample_env [''create'' \<mapsto> create_shot] error_reply)
        (sample_request ''{method_name: create, params: [{script_name: tool}, {type: Shot}]}'')
        start_state)
     = Some [503]"
  by (simp add: dispatcher_defs passthrough_defs sample_defs sample_request_simps)

section \<open>Unknown methods (C3)\<close>

text \<open>
  A streaming call of \<open>passthrough\<close> on the stored envelope: the call that is made,
  whatever the reply, and what is returned or raised.
\<close>

lemma passthrough_stream_stored:
  assumes "api3_payload s = Some g" and "objs s ! g = v" and "encode_payload e v = Inr data"
  shows "passthrough e rq None PNone True True False s =
      (if status_code (http e (post_call e rq data True)) = 200
       then Inr (PResponse (json_response True (http e (post_call e rq data True)) 200))
       else Inl (ReturnPassthroughError
                   [PResponse (json_response True (http e (post_call e rq data True))
                      (status_code (http e (post_call e rq data True))))]),
       s\<lparr>objs := objs s @ [v], upstream_calls := upstream_calls s @ [post_call e rq data True]\<rparr>)"
  using assms
  by (simp add: passthrough_def fetch_payload_def deepcopy_stored_def override_params_def
      send_upstream_def Let_def)

text \<open>
  C3, as stated, fails on the headers: \<open>passthrough\<close> builds its own Response from the
  upstream body with the JSON content type (lines 75-79) and never reads the upstream
  headers. Here the upstream reply carries an ETag; the response is built with an empty
  list of headers, and it is the same response when the upstream reply carries another
  ETag.
\<close>

theorem unknown_method_headers_counterexample:
  "map_option fst
     (json_api (sample_env Map.empty (ok_reply ''{entities: [{id: 7}, {id: 8}]}''))
        (sample_request ''{method_name: find, params: [{script_name: tool}, {type: Shot}]}'')
        start_state)
     = Some (Inr (PResponse
         \<lparr>body = ''{entities: [{id: 7}, {id: 8}]}'', streamed = True, status = 200, headers = [],
          mimetype = Some ''application/json'', direct_passthrough = False\<rparr>))
   \<and> reply_headers (http (sample_env Map.empty (ok_reply ''{entities: [{id: 7}, {id: 8}]}''))
        (post_call (sample_env Map.empty (ok_reply ''{entities: [{id: 7}, {id: 8}]}''))
          (sample_request ''{method_name: find, params: [{script_name: tool}, {type: Shot}]}'')
          ''{method_name: find, params: [{script_name: tool}, {type: Shot}]}'' True))
     = [(''Content-Type'', ''application/json''), (''ETag'', ''1'')]
   \<and> map_option fst
     (json_api (sample_env Map.empty (retagged_reply ''{entities: [{id: 7}, {id: 8}]}''))
        (sample_request ''{method_name: find, params: [{script_name: tool}, {type: Shot}]}'')
        start_state)
     = map_option fst
     (json_api (sample_env Map.empty (ok_reply ''{entities: [{id: 7}, {id: 8}]}''))
        (sample_request ''{method_name: find, params: [{script_name: tool}, {type: Shot}]}'')
        start_state)
   \<and> reply_headers (http (sample_env Map.empty (retagged_reply ''{entities: [{id: 7}, {id: 8}]}''))
        (post_call (sample_env Map.empty (retagged_reply ''{entities: [{id: 7}, {id: 8}]}''))
          (sample_request ''{method_name: find, params: [{script_name: tool}, {type: Shot}]}'')
          ''{method_name: find, params: [{script_name: tool}, {type: Shot}]}'' True))
     = [(''Content-Type'', ''application/json''), (''ETag'', ''2'')]"
  by (simp add: dispatcher_defs passthrough_defs sample_defs sample_request_simps)

text \<open>
  C3, amended: for every well-formed envelope whose method name is not registered (an
  envelope that is serialisable, is taken apart, and is described by the headline and
  by the passing-through line without an exception), whatever the upstream status, the
  dispatcher invokes no handler and makes exactly one upstream call, a streaming POST
  to the fallback URL whose body is the decoded envelope serialised again and whose
  headers are the sanitized request headers, and it logs the headline and the
  passing-through line. When the upstream status is 200 it returns a streaming response
  with the upstream body, status 200 and content type application/json (the upstream
  headers are not relayed).
\<close>

theorem unknown_method_streams_upstream:
  assumes "loads e (req_data rq) = Some payload"
    and "parse_envelope payload = Inr (method_name, auth_params, method_params)"
    and "headline method_name auth_params method_params = Inr (chunks, entity_type)"
    and "lookup_method e method_name = Inl KeyError"
    and "detail_of e method_params = Inr detail"
    and "serialisable payload"
  shows "map_option snd (json_api e rq st) =
     Some (st\<lparr>objs := objs st @ [payload, payload], api3_payload := Some (length (objs st)),
              log := log st @ [(INFO, Headline chunks), (INFO, UnknownMethod method_name detail)],
              upstream_calls := upstream_calls st @ [post_call e rq (dumps e payload) True]\<rparr>)
   \<and> map_option (handler_calls \<circ> snd) (json_api e rq st) = Some (handler_calls st)
   \<and> map_option (upstream_calls \<circ> snd) (json_api e rq st) =
       Some (upstream_calls st @ [post_call e rq (dumps e payload) True])
   \<and> up_method (post_call e rq (dumps e payload) True) = ''POST''
   \<and> up_stream (post_call e rq (dumps e payload) True)
   \<and> up_data (post_call e rq (dumps e payload) True) = dumps e payload
   \<and> up_url (post_call e rq (dumps e payload) True) = fallback_server e @ ''/api3/json''
   \<and> up_headers (post_call e rq (dumps e payload) True) = py_dict (forward_headers rq)
   \<and> (status_code (http e (post_call e rq (dumps e payload) True)) = 200 \<longrightarrow>
        map_option fst (json_api e rq st) =
          Some (Inr (PResponse
             \<lparr>body = content (http e (post_call e rq (dumps e payload) True)), streamed = True,
              status = 200, headers = [], mimetype = Some ''application/json'',
              direct_passthrough = False\<rparr>)))"
proof -
  from assms(2) obtain d where p: "payload = PDict d"
    by (cases payload) (simp_all add: parse_envelope_def)
  let ?st1 = "st\<lparr>objs := objs st @ [payload], api3_payload := Some (length (objs st))\<rparr>"
  let ?st2 = "add_log INFO (UnknownMethod method_name detail)
                (add_log INFO (Headline chunks) ?st1)"
  let ?call = "post_call e rq (dumps e payload) True"
  have g: "api3_payload ?st2 = Some (length (objs st))"
    and v: "objs ?st2 ! length (objs st) = payload"
    by (simp_all add: add_log_def)
  have enc: "encode_payload e payload = Inr (dumps e payload)"
    using assms(6) unfolding p by (simp add: encode_payload_def json_dumps_def del: serialisable.simps)
  note pt = passthrough_stream_stored [OF g v enc]
  have "json_api e rq st =
      Some (unknown_method e rq method_name method_params (add_log INFO (Headline chunks) ?st1))"
    using assms(1-4) p by (simp add: json_api_def json_loads_def is_dict_def dispatch_def)
  also have "unknown_method e rq method_name method_params (add_log INFO (Headline chunks) ?st1) =
      passthrough e rq None PNone True True False ?st2"
    using assms(5) by (simp add: unknown_method_def)
  finally have api: "json_api e rq st = Some (passthrough e rq None PNone True True False ?st2)" .
  have state: "map_option snd (json_api e rq st) =
     Some (st\<lparr>objs := objs st @ [payload, payload], api3_payload := Some (length (objs st)),
              log := log st @ [(INFO, Headline chunks), (INFO, UnknownMethod method_name detail)],
              upstream_calls := upstream_calls st @ [?call]\<rparr>)"
    unfolding api pt by (simp add: add_log_def)
  have handlers: "map_option (handler_calls \<circ> snd) (json_api e rq st) = Some (handler_calls st)"
    unfolding api pt by (simp add: add_log_def)
  have calls: "map_option (upstream_calls \<circ> snd) (json_api e rq st) =
      Some (upstream_calls st @ [?call])"
    unfolding api pt by (simp add: add_log_def)
  have shape: "up_method ?call = ''POST'' \<and> up_stream ?call \<and> up_data ?call = dumps e payload
      \<and> up_url ?call = fallback_server e @ ''/api3/json''
      \<and> up_headers ?call = py_dict (forward_headers rq)"
    by (simp add: post_call_def FALLBACK_URL_def)
  have ok: "map_option fst (json_api e rq st) =
          Some (Inr (PResponse
             \<lparr>body = content (http e ?call), streamed = True,
              status = 200, headers = [], mimetype = Some ''application/json'',
              direct_passthrough = False\<rparr>))"
    if "status_code (http e ?call) = 200"
    unfolding api pt using that by (simp add: json_response_def)
  from state handlers calls shape ok show ?thesis by blast
qed

theorem unknown_method_streams_upstream_witness:
  "map_option snd
     (json_api (sample_env Map.empty (ok_reply ''{entities: [{id: 7}, {id: 8}]}''))
        (sample_request ''{method_name: find, params: [{script_name: tool}, {type: Shot}]}'')
        start_state) =
   Some (start_state
           \<lparr>objs := [envelope ''find'' (PList [auth_tool, shot_params]),
                     envelope ''find'' (PList [auth_tool, shot_params])],
            api3_payload := Some 0,
            log := [(INFO, Headline [Starting (PStr ''find''), OnType (PStr ''Shot''),
                                     ByScript (PStr ''tool'')]),
                    (INFO, UnknownMethod (PStr ''find'') None)],
            upstream_calls :=
              [post_call (sample_env Map.empty (ok_reply ''{entities: [{id: 7}, {id: 8}]}''))
                 (sample_request ''{method_name: find, params: [{script_name: tool}, {type: Shot}]}'')
                 ''{method_name: find, params: [{script_name: tool}, {type: Shot}]}'' True]\<rparr>)
   \<and> map_option fst
     (json_api (sample_env Map.empty (ok_reply ''{entities: [{id: 7}, {id: 8}]}''))
        (sample_request ''{method_name: find, params: [{script_name: tool}, {type: Shot}]}'')
        start_state) =
   Some (Inr (PResponse
           \<lparr>body = ''{entities: [{id: 7}, {id: 8}]}'', streamed = True, status = 200,
            headers = [], mimetype = Some ''application/json'', direct_passthrough = False\<rparr>))"
proof -
  let ?e = "sample_env Map.empty (ok_reply ''{entities: [{id: 7}, {id: 8}]}'')"
  let ?rq = "sample_request ''{method_name: find, params: [{script_name: tool}, {type: Shot}]}''"
  let ?p = "envelope ''find'' (PList [auth_tool, shot_params])"
  have h1: "loads ?e (req_data ?rq) = Some ?p"
    by (simp add: sample_defs sample_request_simps)
  have h2: "parse_envelope ?p = Inr (PStr ''find'', auth_tool, shot_params)"
    by (simp add: parse_envelope_def envelope_def)
  have h3: "headline (PStr ''find'') auth_tool shot_params =
      Inr ([Starting (PStr ''find''), OnType (PStr ''Shot''), ByScript (PStr ''tool'')],
           Some (PStr ''Shot''))"
    by (simp add: headline_def describe_params_def describe_actor_def auth_tool_def shot_params_def)
  have h4: "lookup_method ?e (PStr ''find'') = Inl KeyError"
    by (simp add: lookup_method_def sample_env_def)
  have h5: "detail_of ?e shot_params = Inr None"
    by (simp add: detail_of_def sample_env_def)
  have h6: "serialisable ?p"
    by (simp add: envelope_def auth_tool_def shot_params_def)
  have d: "dumps ?e ?p = ''{method_name: find, params: [{script_name: tool}, {type: Shot}]}''"
    by (simp add: sample_defs)
  have h7: "status_code (http ?e call) = 200" for call
    by (simp add: sample_env_def ok_reply_def)
  have c: "content (http ?e call) = ''{entities: [{id: 7}, {id: 8}]}''" for call
    by (simp add: sample_env_def ok_reply_def)
  from unknown_method_streams_upstream [OF h1 h2 h3 h4 h5 h6, of start_state]
  show ?thesis
    by (simp add: d c h7 start_state_def)
qed

section \<open>Malformed envelopes (C4)\<close>

text \<open>
  C4, as stated, fails for a \<^verbatim>\<open>params\<close> that is not a sequence: only KeyError is
  caught around lines 117-120, and \<^verbatim>\<open>params[0]\<close> on the number 5 raises TypeError,
  which leaves \<open>json_api\<close>.
\<close>

theorem params_not_a_sequence_counterexample:
  "loads (sample_env Map.empty (ok_reply ''[1]'')) ''{method_name: find, params: 5}''
     = Some (PDict [(KStr ''method_name'', PStr ''find''), (KStr ''params'', PInt 5)])
   \<and> map_option fst
     (json_api (sample_env Map.empty (ok_reply ''[1]''))
        (sample_request ''{method_name: find, params: 5}'') start_state)
     = Some (Inl TypeError)"
  by (simp add: dispatcher_defs json_loads_def sample_defs sample_request_simps)

text \<open>
  C4, amended: for every POST body that decodes to a JSON value that is not a map, or
  to a map without a \<^verbatim>\<open>method_name\<close> key or without a \<^verbatim>\<open>params\<close> key, the
  dispatcher returns status 400 with an empty body and no headers; no handler is
  invoked, no upstream call is made and nothing is logged.
\<close>

theorem malformed_envelope_400:
  assumes "loads e (req_data rq) = Some payload"
    and "\<not> is_dict payload \<or>
         payload = PDict d \<and>
           (map_of d (KStr ''method_name'') = None \<or> map_of d (KStr ''params'') = None)"
  shows "json_api e rq st =
           Some (Inr (PTuple [PStr [], PInt 400, PList []]),
                 st\<lparr>objs := objs st @ [payload], api3_payload := Some (length (objs st))\<rparr>)
       \<and> map_option (handler_calls \<circ> snd) (json_api e rq st) = Some (handler_calls st)
       \<and> map_option (upstream_calls \<circ> snd) (json_api e rq st) = Some (upstream_calls st)
       \<and> map_option (log \<circ> snd) (json_api e rq st) = Some (log st)"
proof -
  have "json_api e rq st =
           Some (Inr (PTuple [PStr [], PInt 400, PList []]),
                 st\<lparr>objs := objs st @ [payload], api3_payload := Some (length (objs st))\<rparr>)"
  proof (cases "is_dict payload")
    case False
    with assms(1) show ?thesis
      by (simp add: json_api_def json_loads_def bad_request_def)
  next
    case True
    with assms(2) have p: "payload = PDict d"
      and k: "map_of d (KStr ''method_name'') = None \<or> map_of d (KStr ''params'') = None"
      by auto
    from k have "parse_envelope payload = Inl KeyError"
      unfolding p by (auto simp: parse_envelope_def split: option.splits)
    with assms(1) True show ?thesis
      by (simp add: json_api_def json_loads_def bad_request_def)
  qed
  then show ?thesis by simp
qed

theorem malformed_envelope_400_witness:
  "json_api (sample_env Map.empty (ok_reply ''[1]'')) (sample_request ''[1]'') start_state =
     Some (Inr (PTuple [PStr [], PInt 400, PList []]),
           start_state\<lparr>objs := [PList [PInt 1]], api3_payload := Some 0\<rparr>)
   \<and> json_api (sample_env Map.empty (ok_reply ''[1]''))
       (sample_request ''{params: [{script_name: tool}, {type: Shot}]}'') start_state =
     Some (Inr (PTuple [PStr [], PInt 400, PList []]),
           start_state\<lparr>objs := [PDict [(KStr ''params'', PList [auth_tool, shot_params])]],
                       api3_payload := Some 0\<rparr>)"
proof -
  let ?e = "sample_env Map.empty (ok_reply ''[1]'')"
  have l1: "loads ?e (req_data (sample_request ''[1]'')) = Some (PList [PInt 1])"
    by (simp add: sample_defs sample_request_simps)
  have s1: "\<not> is_dict (PList [PInt 1]) \<or>
         PList [PInt 1] = PDict [] \<and>
           (map_of [] (KStr ''method_name'') = None \<or> map_of [] (KStr ''params'') = None)"
    by (simp add: is_dict_def)
  have l2: "loads ?e (req_data (sample_request ''{params: [{script_name: tool}, {type: Shot}]}''))
      = Some (PDict [(KStr ''params'', PList [auth_tool, shot_params])])"
    by (simp add: sample_defs sample_request_simps)
  have s2: "\<not> is_dict (PDict [(KStr ''params'', PList [auth_tool, shot_params])]) \<or>
         PDict [(KStr ''params'', PList [auth_tool, shot_params])]
           = PDict [(KStr ''params'', PList [auth_tool, shot_params])] \<and>
           (map_of [(KStr ''params'', PList [auth_tool, shot_params])] (KStr ''method_name'') = None
            \<or> map_of [(KStr ''params'', PList [auth_tool, shot_params])] (KStr ''params'') = None)"
    by simp
  from malformed_envelope_400 [OF l1 s1, of start_state]
    malformed_envelope_400 [OF l2 s2, of start_state]
  show ?thesis by (simp add: start_state_def)
qed

section \<open>The upstream call of a two-phase handler (C5)\<close>





section \<open>The buffered reply (C6)\<close>

text \<open>
  C6, as stated, fails where the decoded reply has an \<^verbatim>\<open>exception\<close> key that is not
  true: line 83 tests \<^verbatim>\<open>'exception' in response_data\<close>, the presence of the key, so
  the reply is raised as a ReturnResponse and not returned as data.
\<close>

theorem exception_false_raised_counterexample:
  "loads (sample_env Map.empty (ok_reply ''{exception: false}'')) ''{exception: false}''
     = Some (PDict [(KStr ''exception'', PBool False)])
   \<and> fst (passthrough (sample_env Map.empty (ok_reply ''{exception: false}''))
        (sample_request []) None PNone True False False stored_state)
     = Inl (ReturnResponse [PStr ''{exception: false}'', PInt 200,
              PList [PTuple [PStr ''Content-Type'', PStr ''application/json'']]])"
  by (simp add: passthrough_defs sample_defs sample_request_simps)

text \<open>
  C6, amended: for every buffered (neither streaming nor final) call of \<open>passthrough\<close> whose
  request could be built and whose reply has status 200 and a body that decodes as JSON:
  if the caller asked for exception-sensitive behaviour and the decoded value is a map
  with an \<^verbatim>\<open>exception\<close> key, whatever its value, the outcome is the signal
  ReturnResponse carrying the upstream body text unmodified, status 200 and a JSON
  content type (not a Fault); if the caller did not ask for it, or the decoded value is
  a map without that key, the decoded value is returned as plain data.
\<close>

theorem buffered_reply_decoded:
  assumes "fetch_payload payload st = (Inr a, st1)"
    and "override_params a params st1 = (Inr u, st2)"
    and "encode_payload e (objs st2 ! a) = Inr data"
    and "http e (post_call e rq data False) = reply"
    and "status_code reply = 200"
    and "loads e (content reply) = Some v"
  shows "(re \<and> v = PDict d \<and> map_of d (KStr ''exception'') = Some x \<longrightarrow>
            fst (passthrough e rq payload params re False False st) =
              Inl (ReturnResponse [PStr (content reply), PInt 200,
                     PList [PTuple [PStr ''Content-Type'', PStr ''application/json'']]]))
       \<and> (re \<and> v = PDict d \<and> map_of d (KStr ''exception'') = None \<longrightarrow>
            fst (passthrough e rq payload params re False False st) = Inr v)
       \<and> (\<not> re \<longrightarrow> fst (passthrough e rq payload params re False False st) = Inr v)"
  using assms
  by (simp add: passthrough_def send_upstream_def decode_reply_def json_loads_def
      content_type_json_def Let_def)

theorem buffered_reply_decoded_witness:
  "fst (passthrough (sample_env Map.empty
          (ok_reply ''{exception: true, error_code: 104, message: denied}''))
        (sample_request []) None shot_override True False False stored_state)
     = Inl (ReturnResponse [PStr ''{exception: true, error_code: 104, message: denied}'', PInt 200,
              PList [PTuple [PStr ''Content-Type'', PStr ''application/json'']]])
   \<and> fst (passthrough (sample_env Map.empty (ok_reply ''{results: {id: 7}}''))
        (sample_request []) None shot_override True False False stored_state)
     = Inr created_shot
   \<and> fst (passthrough (sample_env Map.empty
          (ok_reply ''{exception: true, error_code: 104, message: denied}''))
        (sample_request []) None shot_override False False False stored_state)
     = Inr (PDict [(KStr ''exception'', PBool True), (KStr ''error_code'', PInt 104),
              (KStr ''message'', PStr ''denied'')])"
proof -
  let ?st1 = "stored_state\<lparr>objs := objs stored_state @ [objs stored_state ! 0]\<rparr>"
  let ?st2 = "?st1\<lparr>objs := (objs ?st1)[1 := envelope ''create'' (PList [auth_tool, shot_override])]\<rparr>"
  let ?data = "''{method_name: create, params: [{script_name: tool}, {type: Shot, code: sh010}]}''"
  let ?fault = "''{exception: true, error_code: 104, message: denied}''"
  have f: "fetch_payload None stored_state = (Inr 1, ?st1)"
    by (simp add: fetch_payload_def deepcopy_stored_def sample_defs)
  have ov: "override_params 1 shot_override ?st1 = (Inr (), ?st2)"
    by (simp add: override_params_def set_last_param_def sample_defs)
  have enc: "encode_payload e (objs ?st2 ! 1) = Inr (dumps e (objs ?st2 ! 1))" for e
    by (simp add: encode_payload_def json_dumps_def sample_defs)
  have r1: "http (sample_env Map.empty (ok_reply ?fault))
      (post_call (sample_env Map.empty (ok_reply ?fault)) (sample_request [])
         (dumps (sample_env Map.empty (ok_reply ?fault)) (objs ?st2 ! 1)) False) = ok_reply ?fault"
    by (simp add: sample_env_def)
  have r2: "http (sample_env Map.empty (ok_reply ''{results: {id: 7}}''))
      (post_call (sample_env Map.empty (ok_reply ''{results: {id: 7}}'')) (sample_request [])
         (dumps (sample_env Map.empty (ok_reply ''{results: {id: 7}}'')) (objs ?st2 ! 1)) False)
      = ok_reply ''{results: {id: 7}}''"
    by (simp add: sample_env_def)
  have s: "status_code (ok_reply t) = 200" for t by (simp add: ok_reply_def)
  have l1: "loads (sample_env Map.empty (ok_reply ?fault)) (content (ok_reply ?fault))
      = Some (PDict [(KStr ''exception'', PBool True), (KStr ''error_code'', PInt 104),
              (KStr ''message'', PStr ''denied'')])"
    by (simp add: sample_defs)
  have l2: "loads (sample_env Map.empty (ok_reply ''{results: {id: 7}}''))
      (content (ok_reply ''{results: {id: 7}}'')) = Some (PDict [(KStr ''results'', PDict [(KStr ''id'', PInt 7)])])"
    by (simp add: sample_defs)
  note a = buffered_reply_decoded [OF f ov enc r1 s l1, of True
      "[(KStr ''exception'', PBool True), (KStr ''error_code'', PInt 104),
              (KStr ''message'', PStr ''denied'')]" "PBool True"]
  note b = buffered_reply_decoded [OF f ov enc r2 s l2, of True
      "[(KStr ''results'', PDict [(KStr ''id'', PInt 7)])]"]
  note c = buffered_reply_decoded [OF f ov enc r1 s l1, of False]
  from a b c show ?thesis
    by (simp add: ok_reply_def created_shot_def)
qed

section \<open>Header sanitisation (C7)\<close>

text \<open>
  C7, as the spec states it, fails on the relayed response: \<open>proxy\<close> removes the
  hop-by-hop headers from the upstream reply, but not a Host header. A reply that
  carries one is relayed with it.
\<close>

theorem proxy_relays_Host_counterexample:
  "(''Host'', ''sg'') \<in>
     set (headers (fst (proxy (sample_env Map.empty host_reply) upload_request start_state)))
   \<and> lower ''Host'' = ''host''"
  by (simp add: proxy_host_reply lower_Host)

text \<open>
  C7, amended: every request that \<open>passthrough\<close> or \<open>proxy\<close> sends upstream has
  neither a Host header nor a hop-by-hop header (Connection, Keep-Alive,
  Proxy-Authenticate, Proxy-Authorization, TE, Trailer, Transfer-Encoding, Upgrade), whatever
  the case of the letters; the response that \<open>proxy\<close> relays has no hop-by-hop header.
\<close>

theorem forwarded_headers_sanitized:
  "(\<forall>c \<in> set (drop (length (upstream_calls st))
                 (upstream_calls (snd (passthrough e rq payload params re stream final st)))).
      \<forall>k \<in> dom (up_headers c).
        lower k \<notin> {''host'', ''connection'', ''keep-alive'', ''proxy-authenticate'',
                    ''proxy-authorization'', ''te'', ''trailer'', ''transfer-encoding'', ''upgrade''})
   \<and> (\<forall>c \<in> set (drop (length (upstream_calls st)) (upstream_calls (snd (proxy e rq st)))).
      \<forall>k \<in> dom (up_headers c).
        lower k \<notin> {''host'', ''connection'', ''keep-alive'', ''proxy-authenticate'',
                    ''proxy-authorization'', ''te'', ''trailer'', ''transfer-encoding'', ''upgrade''})
   \<and> (\<forall>k \<in> fst ` set (headers (fst (proxy e rq st))).
        lower k \<notin> {''connection'', ''keep-alive'', ''proxy-authenticate'',
                    ''proxy-authorization'', ''te'', ''trailer'', ''transfer-encoding'', ''upgrade''})"
proof (intro conjI ballI)
  fix c k
  assume c: "c \<in> set (drop (length (upstream_calls st))
                 (upstream_calls (snd (passthrough e rq payload params re stream final st))))"
    and k: "k \<in> dom (up_headers c)"
  from passthrough_calls [of e rq payload params re stream final st] c
  obtain data where "c = post_call e rq data stream" by auto
  with k have "k \<in> dom (py_dict (forward_headers rq))" by (simp add: post_call_def)
  from forward_headers_clean [OF this]
  show "lower k \<notin> {''host'', ''connection'', ''keep-alive'', ''proxy-authenticate'',
                    ''proxy-authorization'', ''te'', ''trailer'', ''transfer-encoding'', ''upgrade''}"
    by (simp add: hop_by_hop_headers_def)
next
  fix c k
  assume c: "c \<in> set (drop (length (upstream_calls st)) (upstream_calls (snd (proxy e rq st))))"
    and k: "k \<in> dom (up_headers c)"
  from c k have "k \<in> dom (py_dict (forward_headers rq))" by (auto simp: proxy_def Let_def)
  from forward_headers_clean [OF this]
  show "lower k \<notin> {''host'', ''connection'', ''keep-alive'', ''proxy-authenticate'',
                    ''proxy-authorization'', ''te'', ''trailer'', ''transfer-encoding'', ''upgrade''}"
    by (simp add: hop_by_hop_headers_def)
next
  fix k
  assume "k \<in> fst ` set (headers (fst (proxy e rq st)))"
  then have "k \<in> fst ` set (remove_hop_by_hop_headers (reply_headers (http e
      \<lparr>up_method = req_method rq, up_url = fallback_server e @ req_path rq,
       up_data = req_data rq, up_params = req_args rq,
       up_headers = py_dict (forward_headers rq), up_stream = True\<rparr>)))"
    by (simp add: proxy_def Let_def)
  from relayed_headers_clean [OF this]
  show "lower k \<notin> {''connection'', ''keep-alive'', ''proxy-authenticate'',
                    ''proxy-authorization'', ''te'', ''trailer'', ''transfer-encoding'', ''upgrade''}"
    by (simp add: hop_by_hop_headers_def)
qed

theorem forwarded_headers_sanitized_witness:
  "hd (upstream_calls (snd (passthrough (sample_env Map.empty (ok_reply ''[1]''))
         (sample_request ''[1]'') None PNone True True False stored_state)))
     \<in> set (drop (length (upstream_calls stored_state))
         (upstream_calls (snd (passthrough (sample_env Map.empty (ok_reply ''[1]''))
           (sample_request ''[1]'') None PNone True True False stored_state))))
   \<and> ''Accept'' \<in> dom (up_headers (hd (upstream_calls (snd (passthrough
         (sample_env Map.empty (ok_reply ''[1]'')) (sample_request ''[1]'')
         None PNone True True False stored_state)))))
   \<and> hd (upstream_calls (snd (proxy (sample_env Map.empty host_reply) upload_request start_state)))
     \<in> set (drop (length (upstream_calls start_state))
         (upstream_calls (snd (proxy (sample_env Map.empty host_reply) upload_request start_state))))
   \<and> ''Accept'' \<in> dom (up_headers (hd (upstream_calls (snd (proxy
         (sample_env Map.empty host_reply) upload_request start_state)))))
   \<and> ''ETag'' \<in> fst ` set (headers (fst (proxy (sample_env Map.empty host_reply)
         upload_request start_state)))
   \<and> lower ''Accept'' \<notin> {''host'', ''connection'', ''keep-alive'', ''proxy-authenticate'',
        ''proxy-authorization'', ''te'', ''trailer'', ''transfer-encoding'', ''upgrade''}
   \<and> lower ''ETag'' \<notin> {''connection'', ''keep-alive'', ''proxy-authenticate'',
        ''proxy-authorization'', ''te'', ''trailer'', ''transfer-encoding'', ''upgrade''}"
proof -
  let ?P = "passthrough (sample_env Map.empty (ok_reply ''[1]'')) (sample_request ''[1]'')
              None PNone True True False stored_state"
  let ?Q = "proxy (sample_env Map.empty host_reply) upload_request start_state"
  have calls: "upstream_calls (snd ?P) =
      [post_call (sample_env Map.empty (ok_reply ''[1]'')) (sample_request ''[1]'')
         ''{method_name: create, params: [{script_name: tool}, {type: Shot}]}'' True]"
    by (simp add: passthrough_def fetch_payload_def deepcopy_stored_def override_params_def
        encode_payload_def json_dumps_def send_upstream_def sample_defs)
  have c1: "hd (upstream_calls (snd ?P))
      \<in> set (drop (length (upstream_calls stored_state)) (upstream_calls (snd ?P)))"
    unfolding calls by (simp add: stored_state_def start_state_def)
  have k1: "''Accept'' \<in> dom (up_headers (hd (upstream_calls (snd ?P))))"
    unfolding calls by (simp add: post_call_def sample_request_forwarded dom_py_dict)
  have c2: "hd (upstream_calls (snd ?Q))
      \<in> set (drop (length (upstream_calls start_state)) (upstream_calls (snd ?Q)))"
    by (simp add: proxy_host_reply start_state_def)
  have k2: "''Accept'' \<in> dom (up_headers (hd (upstream_calls (snd ?Q))))"
    by (simp add: proxy_host_reply start_state_def dom_py_dict)
  have k3: "''ETag'' \<in> fst ` set (headers (fst ?Q))"
    by (simp add: proxy_host_reply)
  note inst1 = forwarded_headers_sanitized [of stored_state
      "sample_env Map.empty (ok_reply ''[1]'')" "sample_request ''[1]''" None PNone True True False]
  note inst2 = forwarded_headers_sanitized [of start_state
      "sample_env Map.empty host_reply" upload_request]
  from inst1 c1 k1
  have a: "lower ''Accept'' \<notin> {''host'', ''connection'', ''keep-alive'', ''proxy-authenticate'',
        ''proxy-authorization'', ''te'', ''trailer'', ''transfer-encoding'', ''upgrade''}"
    by blast
  from inst2 k3
  have b: "lower ''ETag'' \<notin> {''connection'', ''keep-alive'', ''proxy-authenticate'',
        ''proxy-authorization'', ''te'', ''trailer'', ''transfer-encoding'', ''upgrade''}"
    by blast
  from c1 k1 c2 k2 k3 a b show ?thesis by blast
qed

section \<open>The completion line (C8)\<close>

text \<open>
  The entity type of the headline is what \<^verbatim>\<open>method_params.get('type')\<close> gave, and the
  count of the completion line is the length of \<^verbatim>\<open>result['entities']\<close>.
\<close>

lemma headline_entity_type:
  assumes "headline method_name auth_params method_params = Inr (chunks, Some ty)"
  shows "py_get method_params ''type'' = Inr ty"
  using assms
  by (cases method_params)
    (auto simp: headline_def describe_params_def split: sum.splits if_splits)

lemma returned_count:
  assumes "num_entities_of raw = Inr n" and "completion_line n t = Inr m"
    and "headline method_name auth_params method_params = Inr (chunks, t)"
  shows "\<exists>c. m = Returned c \<and>
    (case raw of
       PDict d \<Rightarrow>
         (case map_of d (KStr ''entities'') of
            None \<Rightarrow> c = None
          | Some es \<Rightarrow>
              (\<exists>k. py_len es = Inr k \<and>
                   (if k = 0 then c = None
                    else \<exists>ty. py_get method_params ''type'' = Inr ty \<and> c = Some (k, ty))))
     | _ \<Rightarrow> c = None)"
proof (cases n)
  case None
  with assms(2) have m: "m = Returned None" by (simp add: completion_line_def)
  from assms(1) None show ?thesis
    unfolding m
    by (cases raw) (auto simp: num_entities_of_def split: option.splits sum.splits)
next
  case (Some k)
  with assms(1) obtain d es where raw: "raw = PDict d"
    and es: "map_of d (KStr ''entities'') = Some es" and k: "py_len es = Inr k"
    by (cases raw) (auto simp: num_entities_of_def split: option.splits sum.splits)
  show ?thesis
  proof (cases "k = 0")
    case True
    with assms(2) Some have "m = Returned None" by (simp add: completion_line_def)
    with raw es k True show ?thesis by simp
  next
    case False
    with assms(2) Some obtain ty where t: "t = Some ty" and m: "m = Returned (Some (k, ty))"
      by (auto simp: completion_line_def split: option.splits)
    from headline_entity_type [OF assms(3) [unfolded t]]
    have "py_get method_params ''type'' = Inr ty" .
    with raw es k False m show ?thesis by simp
  qed
qed

text \<open>A response of a registered method has gone through \<open>finish\<close>.\<close>

lemma finish_Inr:
  assumes "finish e t raw s = (Inr r, s')"
  shows "\<exists>n m. num_entities_of raw = Inr n \<and> serialise_result e raw = Inr r
           \<and> completion_line n t = Inr m
           \<and> s' = s\<lparr>log := log s @ [(INFO, m)], skip_http_log := True\<rparr>"
  using assms by (auto simp: finish_def add_log_def split: sum.splits)

lemma known_method_Inr:
  assumes "known_method e rq method mn mp t s = Some (Inr r, s')"
  shows "\<exists>raw s1. try_result e rq method mn mp s = Some (Inr raw, s1)
           \<and> finish e t raw s1 = (Inr r, s')"
proof (cases "try_result e rq method mn mp s")
  case None
  with assms show ?thesis by (simp add: known_method_def)
next
  case (Some a)
  obtain o1 s1 where a: "a = (o1, s1)" by (cases a)
  show ?thesis
  proof (cases o1)
    case (Inr raw)
    with assms Some a show ?thesis by (simp add: known_method_def)
  next
    case (Inl x)
    with assms Some a show ?thesis by (simp add: known_method_def)
  qed
qed

text \<open>
  C8, as stated for every path, fails on the delegation of an unknown method: line 158
  returns the result of \<open>passthrough\<close> at once, before \<^verbatim>\<open>start_time\<close> is even set.
  No completion line is logged and \<^verbatim>\<open>skip_http_log\<close> stays unset.
\<close>

theorem unknown_method_no_completion_counterexample:
  "map_option fst
     (json_api (sample_env Map.empty (ok_reply ''{entities: [{id: 7}, {id: 8}]}''))
        (sample_request ''{method_name: find, params: [{script_name: tool}, {type: Shot}]}'')
        start_state)
     = Some (Inr (PResponse
         \<lparr>body = ''{entities: [{id: 7}, {id: 8}]}'', streamed = True, status = 200, headers = [],
          mimetype = Some ''application/json'', direct_passthrough = False\<rparr>))
   \<and> map_option (log \<circ> snd)
     (json_api (sample_env Map.empty (ok_reply ''{entities: [{id: 7}, {id: 8}]}''))
        (sample_request ''{method_name: find, params: [{script_name: tool}, {type: Shot}]}'')
        start_state)
     = Some [(INFO, Headline [Starting (PStr ''find''), OnType (PStr ''Shot''),
                              ByScript (PStr ''tool'')]),
             (INFO, UnknownMethod (PStr ''find'') None)]
   \<and> map_option (skip_http_log \<circ> snd)
     (json_api (sample_env Map.empty (ok_reply ''{entities: [{id: 7}, {id: 8}]}''))
        (sample_request ''{method_name: find, params: [{script_name: tool}, {type: Shot}]}'')
        start_state)
     = Some False"
  by (simp add: dispatcher_defs passthrough_defs sample_defs sample_request_simps)

text \<open>
  C8, amended: for every request that names a registered method and for which the
  dispatcher returns a response, the \<^verbatim>\<open>try\<close> statement has ended with a raw result,
  the response is that raw result normalised, the record logged last is the completion
  line at info level, and the flag that suppresses the automatic access-log line is
  set. The line is "Returned N <type>s in X.Xms", with N the length of the raw
  result's \<^verbatim>\<open>entities\<close> and the type read from the method params, when the raw
  result is a map with an \<^verbatim>\<open>entities\<close> key whose value has a length other than 0;
  it is "Returned in X.Xms" when the raw result is not a map, is a map without that
  key, or the length is 0. (The delegation of an unknown method and the 400 response
  log no such line and leave the flag alone.)
\<close>

theorem completion_line_logged:
  assumes "loads e (req_data rq) = Some payload"
    and "parse_envelope payload = Inr (method_name, auth_params, method_params)"
    and "lookup_method e method_name = Inr method"
    and "json_api e rq st = Some (Inr r, st')"
  shows "\<exists>chunks entity_type raw s1 c.
      headline method_name auth_params method_params = Inr (chunks, entity_type)
    \<and> try_result e rq method method_name method_params
         (add_log INFO (Headline chunks)
            (st\<lparr>objs := objs st @ [payload], api3_payload := Some (length (objs st))\<rparr>))
       = Some (Inr raw, s1)
    \<and> serialise_result e raw = Inr r
    \<and> st' = s1\<lparr>log := log s1 @ [(INFO, Returned c)], skip_http_log := True\<rparr>
    \<and> (case raw of
         PDict d \<Rightarrow>
           (case map_of d (KStr ''entities'') of
              None \<Rightarrow> c = None
            | Some es \<Rightarrow>
                (\<exists>k. py_len es = Inr k \<and>
                     (if k = 0 then c = None
                      else \<exists>ty. py_get method_params ''type'' = Inr ty \<and> c = Some (k, ty))))
       | _ \<Rightarrow> c = None)"
proof -
  from assms(2) obtain d where p: "payload = PDict d"
    by (cases payload) (simp_all add: parse_envelope_def)
  let ?s0 = "st\<lparr>objs := objs st @ [payload], api3_payload := Some (length (objs st))\<rparr>"
  from assms(1,2,4) p
  have disp: "dispatch e rq method_name auth_params method_params ?s0 = Some (Inr r, st')"
    by (simp add: json_api_def json_loads_def is_dict_def)
  then obtain chunks t where hl: "headline method_name auth_params method_params = Inr (chunks, t)"
    by (cases "headline method_name auth_params method_params") (auto simp: dispatch_def)
  from disp hl assms(3)
  have "known_method e rq method method_name method_params t (add_log INFO (Headline chunks) ?s0)
      = Some (Inr r, st')"
    by (simp add: dispatch_def Let_def)
  from known_method_Inr [OF this] obtain raw s1 where
    tr: "try_result e rq method method_name method_params (add_log INFO (Headline chunks) ?s0)
      = Some (Inr raw, s1)"
    and fin: "finish e t raw s1 = (Inr r, st')"
    by blast
  from finish_Inr [OF fin] obtain n m where n: "num_entities_of raw = Inr n"
    and ser: "serialise_result e raw = Inr r"
    and cl: "completion_line n t = Inr m"
    and st': "st' = s1\<lparr>log := log s1 @ [(INFO, m)], skip_http_log := True\<rparr>"
    by blast
  from returned_count [OF n cl hl] obtain c where m: "m = Returned c"
    and count: "(case raw of
         PDict d \<Rightarrow>
           (case map_of d (KStr ''entities'') of
              None \<Rightarrow> c = None
            | Some es \<Rightarrow>
                (\<exists>k. py_len es = Inr k \<and>
                     (if k = 0 then c = None
                      else \<exists>ty. py_get method_params ''type'' = Inr ty \<and> c = Some (k, ty))))
       | _ \<Rightarrow> c = None)"
    by blast
  from hl tr ser st' [unfolded m] count show ?thesis by blast
qed

theorem completion_line_logged_witness:
  "map_option (skip_http_log \<circ> snd)
     (json_api (sample_env [''find'' \<mapsto> find_shots] (ok_reply ''[1]''))
        (sample_request ''{method_name: find, params: [{script_name: tool}, {type: Shot}]}'')
        start_state) = Some True
   \<and> map_option (last \<circ> log \<circ> snd)
     (json_api (sample_env [''find'' \<mapsto> find_shots] (ok_reply ''[1]''))
        (sample_request ''{method_name: find, params: [{script_name: tool}, {type: Shot}]}'')
        start_state) = Some (INFO, Returned (Some (2, PStr ''Shot'')))
   \<and> map_option fst
     (json_api (sample_env [''find'' \<mapsto> find_shots] (ok_reply ''[1]''))
        (sample_request ''{method_name: find, params: [{script_name: tool}, {type: Shot}]}'')
        start_state)
     = Some (Inr (PTuple [PStr ''{entities: [{id: 7}, {id: 8}]}'', PInt 200,
          PList [PTuple [PStr ''Content-Type'', PStr ''application/json'']]]))"
proof -
  let ?e = "sample_env [''find'' \<mapsto> find_shots] (ok_reply ''[1]'')"
  let ?rq = "sample_request ''{method_name: find, params: [{script_name: tool}, {type: Shot}]}''"
  let ?p = "envelope ''find'' (PList [auth_tool, shot_params])"
  let ?r = "PTuple [PStr ''{entities: [{id: 7}, {id: 8}]}'', PInt 200,
          PList [PTuple [PStr ''Content-Type'', PStr ''application/json'']]]"
  let ?hl = "[Starting (PStr ''find''), OnType (PStr ''Shot''), ByScript (PStr ''tool'')]"
  let ?st = "\<lparr>objs = [?p], api3_payload = Some 0,
      log = [(INFO, Headline ?hl), (INFO, Returned (Some (2, PStr ''Shot'')))],
      skip_http_log = True, upstream_calls = [], handler_calls = [shot_params]\<rparr>"
  have h1: "loads ?e (req_data ?rq) = Some ?p"
    by (simp add: sample_defs sample_request_simps)
  have h2: "parse_envelope ?p = Inr (PStr ''find'', auth_tool, shot_params)"
    by (simp add: parse_envelope_def envelope_def)
  have h3: "lookup_method ?e (PStr ''find'') = Inr find_shots"
    by (simp add: lookup_method_def sample_env_def)
  have h4: "json_api ?e ?rq start_state = Some (Inr ?r, ?st)"
    by (simp add: dispatcher_defs json_loads_def json_dumps_def content_type_json_def
        sample_defs sample_request_simps)
  have hl: "headline (PStr ''find'') auth_tool shot_params = Inr (?hl, Some (PStr ''Shot''))"
    by (simp add: headline_def describe_params_def describe_actor_def auth_tool_def shot_params_def)
  have tr: "try_result ?e ?rq find_shots (PStr ''find'') shot_params s = Some (Inr raw, s1)
      \<Longrightarrow> raw = found_shots" for s raw s1
    by (simp add: try_result_def run_method_def find_shots_def Let_def)
  have len: "py_len (PList [PDict [(KStr ''id'', PInt 7)], PDict [(KStr ''id'', PInt 8)]]) = Inr k
      \<Longrightarrow> k = 2" for k
    by simp
  from completion_line_logged [OF h1 h2 h3 h4]
  obtain chunks entity_type raw s1 c where
    a: "try_result ?e ?rq find_shots (PStr ''find'') shot_params
         (add_log INFO (Headline chunks)
            (start_state\<lparr>objs := objs start_state @ [?p],
                         api3_payload := Some (length (objs start_state))\<rparr>))
       = Some (Inr raw, s1)"
    and b: "?st = s1\<lparr>log := log s1 @ [(INFO, Returned c)], skip_http_log := True\<rparr>"
    and c: "(case raw of
         PDict d \<Rightarrow>
           (case map_of d (KStr ''entities'') of
              None \<Rightarrow> c = None
            | Some es \<Rightarrow>
                (\<exists>k. py_len es = Inr k \<and>
                     (if k = 0 then c = None
                      else \<exists>ty. py_get shot_params ''type'' = Inr ty \<and> c = Some (k, ty))))
       | _ \<Rightarrow> c = None)"
    by blast
  from tr [OF a] have raw: "raw = found_shots" .
  from c [unfolded raw] have count: "c = Some (2, PStr ''Shot'')"
    by (auto simp: found_shots_def shot_params_def dest: len)
  have "skip_http_log ?st"
    by (subst b) simp
  moreover have "last (log ?st) = (INFO, Returned (Some (2, PStr ''Shot'')))"
    by (subst b) (simp add: count)
  ultimately show ?thesis
    unfolding h4 by simp
qed

section \<open>Generators that yield more than once (C9)\<close>

text \<open>
  C9, as stated, fails on the second yield: \<^verbatim>\<open>coroutine.send\<close> (line 178) returns the
  value the generator yields next, and that value is the result. A handler that yields
  its override and then its result has its second value returned to the client, with
  no warning logged; it is a handler that yields only once that fails, with the
  StopIteration of \<^verbatim>\<open>send\<close>.
\<close>

theorem second_yield_is_result_counterexample:
  "answer (Send created_shot) = Yield created_shot finished
   \<and> map_option fst
     (json_api (sample_env [''create'' \<mapsto> create_shot] (ok_reply ''{results: {id: 7}}''))
        (sample_request ''{method_name: create, params: [{script_name: tool}, {type: Shot}]}'')
        start_state)
     = Some (Inr (PTuple [PStr ''{results: {id: 7}}'', PInt 200,
          PList [PTuple [PStr ''Content-Type'', PStr ''application/json'']]]))
   \<and> map_option (warnings \<circ> snd)
     (json_api (sample_env [''create'' \<mapsto> create_shot] (ok_reply ''{results: {id: 7}}''))
        (sample_request ''{method_name: create, params: [{script_name: tool}, {type: Shot}]}'')
        start_state)
     = Some []"
  by (simp add: dispatcher_defs passthrough_defs sample_defs sample_request_simps drain_eqs
      warnings_def)

text \<open>
  C9, amended: for every two-phase handler that yields more than once and whose
  upstream call succeeds, only the first yielded value drives an upstream call; the
  second yielded value, the one that answers the resumption, is kept as the result and
  goes through the usual normalisation; when none of the values yielded after it is a
  tuple, each of them is logged at warning level and discarded, and when the generator
  then finishes the driver returns the result without an exception. (A tuple among
  them is the argument tuple of the \<^verbatim>\<open>%\<close> that formats the warning, which raises
  TypeError unless the tuple has one element.)
\<close>

theorem extra_yields_logged:
  assumes "method method_params = Generator (Yield override k)"
    and "passthrough e rq None override True False False
           (st\<lparr>handler_calls := handler_calls st @ [method_params]\<rparr>) = (Inr v, st1)"
    and "k (Send v) = Yield result k'"
    and "extra_yields (k' (Send PNone)) xs"
    and "list_all (\<lambda>x. \<not> is_tuple x) xs"
  shows "run_method e rq method method_params st =
           Some (Inr result, st1\<lparr>log := log st1 @ map (\<lambda>x. (WARNING, ExtraYielded x)) xs\<rparr>)
       \<and> known_method e rq method method_name method_params entity_type st =
           Some (finish e entity_type result
                   (st1\<lparr>log := log st1 @ map (\<lambda>x. (WARNING, ExtraYielded x)) xs\<rparr>))
       \<and> (\<exists>data. upstream_calls st1 = upstream_calls st @ [post_call e rq data False])"
proof -
  have run: "run_method e rq method method_params st =
           Some (Inr result, st1\<lparr>log := log st1 @ map (\<lambda>x. (WARNING, ExtraYielded x)) xs\<rparr>)"
    using assms(1,2,3) drain_extra_yields [OF assms(4) assms(5), of st1]
    by (simp add: run_method_def drive_def send_and_drain_def Let_def)
  then have known: "known_method e rq method method_name method_params entity_type st =
           Some (finish e entity_type result
                   (st1\<lparr>log := log st1 @ map (\<lambda>x. (WARNING, ExtraYielded x)) xs\<rparr>))"
    by (simp add: known_method_def try_result_def)
  from passthrough_Inr_calls [OF assms(2)]
  have "\<exists>data. upstream_calls st1 = upstream_calls st @ [post_call e rq data False]"
    by simp
  with run known show ?thesis by blast
qed

theorem extra_yields_logged_witness:
  "map_option fst
     (run_method (sample_env [''create'' \<mapsto> chatty] (ok_reply ''{results: {id: 7}}''))
        (sample_request []) chatty shot_params stored_state)
     = Some (Inr created_shot)
   \<and> map_option (warnings \<circ> snd)
     (run_method (sample_env [''create'' \<mapsto> chatty] (ok_reply ''{results: {id: 7}}''))
        (sample_request []) chatty shot_params stored_state)
     = Some [ExtraYielded (PInt 1), ExtraYielded (PInt 2)]
   \<and> map_option (map up_data \<circ> upstream_calls \<circ> snd)
     (run_method (sample_env [''create'' \<mapsto> chatty] (ok_reply ''{results: {id: 7}}''))
        (sample_request []) chatty shot_params stored_state)
     = Some [''{method_name: create, params: [{script_name: tool}, {type: Shot, code: sh010}]}'']"
proof -
  let ?e = "sample_env [''create'' \<mapsto> chatty] (ok_reply ''{results: {id: 7}}'')"
  let ?st1 = "stored_state
      \<lparr>objs := [envelope ''create'' (PList [auth_tool, shot_params]),
                envelope ''create'' (PList [auth_tool, shot_override])],
       upstream_calls :=
         [post_call ?e (sample_request [])
            ''{method_name: create, params: [{script_name: tool}, {type: Shot, code: sh010}]}''
            False],
       handler_calls := [shot_params]\<rparr>"
  have h1: "chatty shot_params =
      Generator (Yield shot_override (\<lambda>r. Yield created_shot chatter))"
    by (simp add: chatty_def)
  have h2: "passthrough ?e (sample_request []) None shot_override True False False
      (stored_state\<lparr>handler_calls := handler_calls stored_state @ [shot_params]\<rparr>)
      = (Inr created_shot, ?st1)"
    by (simp add: passthrough_def fetch_payload_def deepcopy_stored_def override_params_def
        set_last_param_def encode_payload_def send_upstream_def decode_reply_def
        json_loads_def json_dumps_def sample_defs)
  have h3: "(\<lambda>r. Yield created_shot chatter) (Send created_shot) = Yield created_shot chatter"
    by simp
  have h4: "extra_yields (chatter (Send PNone)) [PInt 1, PInt 2]"
    by (simp add: chatter_def finished_def)
  have h5: "list_all (\<lambda>x. \<not> is_tuple x) [PInt 1, PInt 2]"
    by (simp add: is_tuple_def)
  from extra_yields_logged [of chatty shot_params _ "\<lambda>r. Yield created_shot chatter"
      _ _ _ _ _ _ chatter, OF h1 h2 h3 h4 h5]
  show ?thesis
    by (simp add: warnings_def stored_state_def start_state_def post_call_def)
qed

section \<open>The stored envelope and the override (C10)\<close>

text \<open>
  C10, as stated for every call with an override, fails when the caller passes the
  stored envelope itself as \<^verbatim>\<open>payload\<close>: no copy is made (line 57 copies only when
  \<^verbatim>\<open>payload is None\<close>) and the item assignment changes the stored object.
\<close>

theorem explicit_payload_mutated_counterexample:
  "api3_payload stored_state = Some 0
   \<and> objs stored_state ! 0 = envelope ''create'' (PList [auth_tool, shot_params])
   \<and> objs (snd (passthrough (sample_env Map.empty (ok_reply ''{results: {id: 7}}''))
        (sample_request []) (Some 0) shot_override True False False stored_state)) ! 0
     = envelope ''create'' (PList [auth_tool, shot_override])
   \<and> envelope ''create'' (PList [auth_tool, shot_override])
     \<noteq> envelope ''create'' (PList [auth_tool, shot_params])"
  by (simp add: passthrough_defs sample_defs sample_request_simps)

text \<open>
  C10, amended: for every call of \<open>passthrough\<close> without a payload argument
  (\<^verbatim>\<open>payload=None\<close>), with or without an override, \<^verbatim>\<open>g.api3_payload\<close> still refers to
  the same object afterwards and every object that existed before the call, the stored
  envelope among them, is unchanged: the override is written into a deep copy. When the
  stored envelope is a map whose \<^verbatim>\<open>params\<close> is a non-empty sequence and the
  override is not None, the body sent upstream is the serialisation of the envelope
  with the last slot of \<^verbatim>\<open>params\<close> replaced by the override; the first slot (the auth
  params) is kept when the sequence has at least two slots, and is the slot replaced
  when it has one.
\<close>

theorem stored_envelope_unchanged:
  assumes "api3_payload st = Some g" and "g < length (objs st)"
  shows "api3_payload (snd (passthrough e rq None params re stream final st)) = Some g
   \<and> take (length (objs st)) (objs (snd (passthrough e rq None params re stream final st))) = objs st
   \<and> objs (snd (passthrough e rq None params re stream final st)) ! g = objs st ! g
   \<and> (params \<noteq> PNone \<and> objs st ! g = PDict d \<and> map_of d (KStr ''params'') = Some (PList xs)
        \<and> xs \<noteq> [] \<and> serialisable (PDict d) \<and> serialisable params \<longrightarrow>
      upstream_calls (snd (passthrough e rq None params re stream final st)) =
        upstream_calls st @
        [post_call e rq
           (dumps e (PDict (AList.update (KStr ''params'') (PList (butlast xs @ [params])) d)))
           stream]
      \<and> (2 \<le> length xs \<longrightarrow> hd (butlast xs @ [params]) = hd xs)
      \<and> (length xs = 1 \<longrightarrow> butlast xs @ [params] = [params]))"
proof -
  let ?st1 = "st\<lparr>objs := objs st @ [objs st ! g]\<rparr>"
  let ?a = "length (objs st)"
  have fetch: "fetch_payload None st = (Inr ?a, ?st1)"
    using assms(1) by (simp add: fetch_payload_def deepcopy_stored_def)
  obtain r2 st2 where ov: "override_params ?a params ?st1 = (r2, st2)"
    by (cases "override_params ?a params ?st1")
  have st2: "api3_payload st2 = Some g \<and> take ?a (objs st2) = objs st
      \<and> upstream_calls st2 = upstream_calls st"
    using ov assms(1) by (auto simp: override_params_def split: sum.splits if_splits)
  have frame: "api3_payload (snd (passthrough e rq None params re stream final st)) = Some g
   \<and> take ?a (objs (snd (passthrough e rq None params re stream final st))) = objs st"
  proof (cases r2)
    case (Inl x)
    with fetch ov st2 show ?thesis by (simp add: passthrough_def)
  next
    case (Inr u)
    with fetch ov st2 show ?thesis
      by (cases "encode_payload e (objs st2 ! ?a)")
        (simp_all add: passthrough_def send_upstream_def Let_def)
  qed
  have same: "objs (snd (passthrough e rq None params re stream final st)) ! g = objs st ! g"
    using frame assms(2) by (metis nth_take)
  have sent: "upstream_calls (snd (passthrough e rq None params re stream final st)) =
        upstream_calls st @
        [post_call e rq
           (dumps e (PDict (AList.update (KStr ''params'') (PList (butlast xs @ [params])) d)))
           stream]"
    if h: "params \<noteq> PNone" "objs st ! g = PDict d" "map_of d (KStr ''params'') = Some (PList xs)"
      "xs \<noteq> []" "serialisable (PDict d)" "serialisable params"
  proof -
    let ?v = "PDict (AList.update (KStr ''params'') (PList (butlast xs @ [params])) d)"
    have sl: "set_last_param (PDict d) params = Inr ?v"
      using h by (simp add: set_last_param_def)
    have ser: "serialisable ?v"
      using serialisable_set_last_param [OF sl h(5) h(6)] .
    have ov': "override_params ?a params ?st1 = (Inr (), ?st1\<lparr>objs := (objs ?st1)[?a := ?v]\<rparr>)"
      using h(1) h(2) sl by (simp add: override_params_def)
    have enc: "encode_payload e ?v = Inr (dumps e ?v)"
      using ser by (simp add: encode_payload_def json_dumps_def del: serialisable.simps)
    show ?thesis
      using fetch ov' enc
      by (simp add: passthrough_def send_upstream_calls del: serialisable.simps)
  qed
  have slots: "(2 \<le> length xs \<longrightarrow> hd (butlast xs @ [params]) = hd xs)
      \<and> (length xs = 1 \<longrightarrow> butlast xs @ [params] = [params])"
    by (cases xs) (auto simp: neq_Nil_conv)
  from frame same sent slots show ?thesis by blast
qed

theorem stored_envelope_unchanged_witness:
  "api3_payload stored_state = Some 0 \<and> 0 < length (objs stored_state)
   \<and> objs (snd (passthrough (sample_env Map.empty (ok_reply ''{results: {id: 7}}''))
        (sample_request []) None shot_override True False False stored_state)) ! 0
     = envelope ''create'' (PList [auth_tool, shot_params])
   \<and> map up_data (upstream_calls (snd (passthrough
        (sample_env Map.empty (ok_reply ''{results: {id: 7}}''))
        (sample_request []) None shot_override True False False stored_state)))
     = [''{method_name: create, params: [{script_name: tool}, {type: Shot, code: sh010}]}'']"
proof -
  have h1: "api3_payload stored_state = Some 0" and h2: "0 < length (objs stored_state)"
    by (simp_all add: sample_defs)
  have h3: "shot_override \<noteq> PNone
      \<and> objs stored_state ! 0 =
          PDict [(KStr ''method_name'', PStr ''create''),
                 (KStr ''params'', PList [auth_tool, shot_params])]
      \<and> map_of [(KStr ''method_name'', PStr ''create''),
                 (KStr ''params'', PList [auth_tool, shot_params])] (KStr ''params'')
          = Some (PList [auth_tool, shot_params])
      \<and> [auth_tool, shot_params] \<noteq> []
      \<and> serialisable (PDict [(KStr ''method_name'', PStr ''create''),
                 (KStr ''params'', PList [auth_tool, shot_params])])
      \<and> serialisable shot_override"
    by (simp add: sample_defs)
  from stored_envelope_unchanged [OF h1 h2,
      of "sample_env Map.empty (ok_reply ''{results: {id: 7}}'')" "sample_request []"
         shot_override True False False
         "[(KStr ''method_name'', PStr ''create''), (KStr ''params'', PList [auth_tool, shot_params])]"
         "[auth_tool, shot_params]"] h3
  show ?thesis
    using h1 h2 by (simp add: sample_defs post_call_def)
qed

end
